theory Spec2Isabelle
  imports Complex_Main "HOL-Library.AList"
begin

section \<open>Conventions of the embedding\<close>

text \<open>
  The program is a Python futures-trading agent. Python floats are idealised as
  \<^typ>\<open>real\<close> (no rounding, no NaN, no infinities); an optional float
  (\<^verbatim>\<open>Optional[float]\<close>) is a \<^typ>\<open>real option\<close>. Python strings are
  \<^typ>\<open>string\<close>, Python ints are \<^typ>\<open>int\<close>. The attributes of the
  \<^verbatim>\<open>config\<close> module are read once into a record; a \<^verbatim>\<open>getattr\<close> default
  is the value the field holds when the module lacks the attribute.
\<close>

subsection \<open>Python values, errors and conversions\<close>

datatype pyval = PNone | PFloat real | PInt int | PStr string

datatype py_error = KeyError string | TypeError | ValueError

text \<open>\<^verbatim>\<open>int(x)\<close> on a float truncates towards zero.\<close>

definition py_trunc :: "real \<Rightarrow> int" where
  "py_trunc x = (if 0 \<le> x then \<lfloor>x\<rfloor> else \<lceil>x\<rceil>)"

text \<open>
  \<^verbatim>\<open>float(v)\<close> and \<^verbatim>\<open>int(v)\<close>: \<^verbatim>\<open>None\<close> raises TypeError. Parsing of
  numeric strings is outside the model: a string argument is reported as ValueError.
\<close>

definition py_float :: "pyval \<Rightarrow> py_error + real" where
  "py_float v = (case v of
      PNone \<Rightarrow> Inl TypeError
    | PFloat r \<Rightarrow> Inr r
    | PInt i \<Rightarrow> Inr (real_of_int i)
    | PStr s \<Rightarrow> Inl ValueError)"

definition py_int :: "pyval \<Rightarrow> py_error + int" where
  "py_int v = (case v of
      PNone \<Rightarrow> Inl TypeError
    | PFloat r \<Rightarrow> Inr (py_trunc r)
    | PInt i \<Rightarrow> Inr i
    | PStr s \<Rightarrow> Inl ValueError)"

text \<open>
  A value stored without conversion into a field annotated \<^verbatim>\<open>Optional[float]\<close> or
  \<^verbatim>\<open>str\<close>. Python would store any object; the typed record can only hold a
  well-typed one, so an ill-typed value is reported as TypeError.
\<close>

definition as_opt_float :: "pyval \<Rightarrow> py_error + real option" where
  "as_opt_float v = (case v of
      PNone \<Rightarrow> Inr None
    | PFloat r \<Rightarrow> Inr (Some r)
    | PInt i \<Rightarrow> Inr (Some (real_of_int i))
    | PStr s \<Rightarrow> Inl TypeError)"

definition as_str :: "pyval \<Rightarrow> py_error + string" where
  "as_str v = (case v of PStr s \<Rightarrow> Inr s | _ \<Rightarrow> Inl TypeError)"

definition bind_err :: "py_error + 'a \<Rightarrow> ('a \<Rightarrow> py_error + 'b) \<Rightarrow> py_error + 'b" where
  "bind_err m f = (case m of Inl e \<Rightarrow> Inl e | Inr v \<Rightarrow> f v)"

text \<open>\<^verbatim>\<open>d[k]\<close> raises KeyError on a missing key; \<^verbatim>\<open>d.get(k, default)\<close> does not.\<close>

definition dict_item :: "(string \<rightharpoonup> pyval) \<Rightarrow> string \<Rightarrow> py_error + pyval" where
  "dict_item d k = (case d k of None \<Rightarrow> Inl (KeyError k) | Some v \<Rightarrow> Inr v)"

definition dict_get :: "(string \<rightharpoonup> pyval) \<Rightarrow> string \<Rightarrow> pyval \<Rightarrow> pyval" where
  "dict_get d k dflt = (case d k of None \<Rightarrow> dflt | Some v \<Rightarrow> v)"

section \<open>position.py: the position record\<close>

record PositionState =
  symbol :: string
  entry_price :: real
  qty :: real
  notional :: real
  side :: string
  mode :: string
  open_time :: "real option"
  stop_loss :: "real option"
  tp1 :: "real option"
  tp2 :: "real option"
  peak_price :: "real option"
  trailing_stop :: "real option"
  pyramid_level :: int

definition opt_val :: "real option \<Rightarrow> pyval" where
  "opt_val x = (case x of None \<Rightarrow> PNone | Some r \<Rightarrow> PFloat r)"

text \<open>\<^verbatim>\<open>to_dict\<close> is \<^verbatim>\<open>dataclasses.asdict\<close>: one key per field.\<close>

definition to_dict :: "PositionState \<Rightarrow> (string \<rightharpoonup> pyval)" where
  "to_dict p =
     [''symbol'' \<mapsto> PStr (symbol p),
      ''entry_price'' \<mapsto> PFloat (entry_price p),
      ''qty'' \<mapsto> PFloat (qty p),
      ''notional'' \<mapsto> PFloat (notional p),
      ''side'' \<mapsto> PStr (side p),
      ''mode'' \<mapsto> PStr (mode p),
      ''open_time'' \<mapsto> opt_val (open_time p),
      ''stop_loss'' \<mapsto> opt_val (stop_loss p),
      ''tp1'' \<mapsto> opt_val (tp1 p),
      ''tp2'' \<mapsto> opt_val (tp2 p),
      ''peak_price'' \<mapsto> opt_val (peak_price p),
      ''trailing_stop'' \<mapsto> opt_val (trailing_stop p),
      ''pyramid_level'' \<mapsto> PInt (pyramid_level p)]"

text \<open>
  \<^verbatim>\<open>from_dict\<close>, keyword argument by keyword argument in the order of the source.
  \<open>now\<close> is the value of \<^verbatim>\<open>time.time()\<close> used when the key \<^verbatim>\<open>open_time\<close> is
  missing. The default of \<^verbatim>\<open>notional\<close> is computed eagerly, as Python does.
\<close>

definition from_dict :: "real \<Rightarrow> (string \<rightharpoonup> pyval) \<Rightarrow> py_error + PositionState" where
  "from_dict now d =
     bind_err (bind_err (dict_item d ''symbol'') as_str) (\<lambda>symb.
     bind_err (bind_err (dict_item d ''entry_price'') py_float) (\<lambda>ep.
     bind_err (bind_err (dict_item d ''qty'') py_float) (\<lambda>q.
     bind_err (bind_err (dict_item d ''entry_price'') py_float) (\<lambda>ep2.
     bind_err (bind_err (dict_item d ''qty'') py_float) (\<lambda>q2.
     bind_err (py_float (dict_get d ''notional'' (PFloat (ep2 * q2)))) (\<lambda>n.
     bind_err (as_str (dict_get d ''side'' (PStr ''short''))) (\<lambda>sd.
     bind_err (as_str (dict_get d ''mode'' (PStr ''futures''))) (\<lambda>md.
     bind_err (as_opt_float (dict_get d ''open_time'' (PFloat now))) (\<lambda>ot.
     bind_err (as_opt_float (dict_get d ''stop_loss'' PNone)) (\<lambda>sl.
     bind_err (as_opt_float (dict_get d ''tp1'' PNone)) (\<lambda>t1.
     bind_err (as_opt_float (dict_get d ''tp2'' PNone)) (\<lambda>t2.
     bind_err (as_opt_float (dict_get d ''peak_price'' PNone)) (\<lambda>pk.
     bind_err (as_opt_float (dict_get d ''trailing_stop'' PNone)) (\<lambda>ts.
     bind_err (py_int (dict_get d ''pyramid_level'' (PInt 0))) (\<lambda>pl.
       Inr \<lparr>symbol = symb, entry_price = ep, qty = q, notional = n, side = sd,
            mode = md, open_time = ot, stop_loss = sl, tp1 = t1, tp2 = t2,
            peak_price = pk, trailing_stop = ts, pyramid_level = pl\<rparr>)))))))))))))))"

section \<open>utils.py and risk.py: position sizing\<close>

definition round_down :: "real \<Rightarrow> real \<Rightarrow> real" where
  "round_down v step = (if step \<le> 0 then v else real_of_int \<lfloor>v / step\<rfloor> * step)"

text \<open>
  The two attributes of \<^verbatim>\<open>RiskManager\<close>, read from \<^verbatim>\<open>MIN_NOTIONAL_USDT\<close>
  (default 5.0) and \<^verbatim>\<open>QTY_STEP\<close> (default 0.0001).
\<close>

record RiskManager =
  min_notional :: real
  qty_step :: real

definition default_risk :: RiskManager where
  "default_risk = \<lparr>min_notional = 5, qty_step = 1 / 10000\<rparr>"

definition calc_size :: "RiskManager \<Rightarrow> real \<Rightarrow> real \<Rightarrow> real \<times> real" where
  "calc_size rm notional0 price =
     (if price \<le> 0 \<or> notional0 \<le> 0 then (0, 0)
      else let notional1 = max notional0 (min_notional rm);
               qty0 = round_down (notional1 / price) (qty_step rm)
           in if qty0 \<le> 0 then (0, 0)
              else let notional2 = qty0 * price
                   in if notional2 < min_notional rm then (0, 0)
                      else (notional2, qty0))"

definition futures_notional_by_leverage :: "real \<Rightarrow> int \<Rightarrow> real" where
  "futures_notional_by_leverage balance_usdt leverage =
     (if balance_usdt \<le> 0 \<or> leverage \<le> 0 then 0
      else balance_usdt * real_of_int leverage)"

text \<open>
  \<^verbatim>\<open>calc_futures_size_from_risk\<close>. Both callers pass \<^verbatim>\<open>risk_per_trade\<close> and
  \<^verbatim>\<open>leverage\<close> explicitly, so the two \<^verbatim>\<open>None\<close> defaults are not taken.
\<close>

definition desired_notional :: "real \<Rightarrow> real \<Rightarrow> real \<Rightarrow> int \<Rightarrow> real" where
  "desired_notional equity stop_distance_pct risk_per_trade leverage =
     (let risk_amount = equity * risk_per_trade;
          notional_by_risk = risk_amount * 100 / stop_distance_pct;
          max_notional_by_lev = futures_notional_by_leverage equity leverage
      in min notional_by_risk max_notional_by_lev)"

definition calc_futures_size_from_risk ::
    "RiskManager \<Rightarrow> real \<Rightarrow> real \<Rightarrow> real \<Rightarrow> real \<Rightarrow> int \<Rightarrow> real \<times> real" where
  "calc_futures_size_from_risk rm equity price stop_distance_pct risk_per_trade leverage =
     (if equity \<le> 0 \<or> price \<le> 0 \<or> stop_distance_pct \<le> 0 \<or> risk_per_trade \<le> 0
         \<or> leverage \<le> 0
      then (0, 0)
      else calc_size rm
             (desired_notional equity stop_distance_pct risk_per_trade leverage) price)"

section \<open>config.py: the settings the core reads\<close>

text \<open>
  \<^verbatim>\<open>MTF_MAX_OPEN_POSITIONS\<close> is optional: when the attribute is missing the
  source falls back to \<^verbatim>\<open>MAX_OPEN_POSITIONS\<close>.
\<close>

record Config =
  STRATEGY_NAME :: string
  MAX_OPEN_POSITIONS :: int
  MTF_MAX_OPEN_POSITIONS :: "int option"
  MTF_MAX_BARS_IN_POSITION :: int
  RISK_PER_TRADE :: real
  FUTURES_LEVERAGE_DEFAULT :: int
  ATR_SL_MULT :: real
  ATR_TP_MULT_1 :: real
  ATR_TS_MULT :: real
  FUTURES_FEE_RATE :: real
  HARD_MAX_DRAWDOWN_PCT :: real
  MAX_TRADES_PER_HOUR :: int
  MIN_REOPEN_INTERVAL_SEC :: int
  POSITION_MISMATCH_DISABLE :: bool

text \<open>The values of \<^verbatim>\<open>config.py\<close> as shipped (environment variables unset).\<close>

definition shipped_config :: Config where
  "shipped_config =
     \<lparr>STRATEGY_NAME = ''mtf_breakout'', MAX_OPEN_POSITIONS = 3,
      MTF_MAX_OPEN_POSITIONS = Some 3, MTF_MAX_BARS_IN_POSITION = 96,
      RISK_PER_TRADE = 1 / 100, FUTURES_LEVERAGE_DEFAULT = 5,
      ATR_SL_MULT = 5, ATR_TP_MULT_1 = 10, ATR_TS_MULT = 5,
      FUTURES_FEE_RATE = 4 / 10000, HARD_MAX_DRAWDOWN_PCT = 0,
      MAX_TRADES_PER_HOUR = 20, MIN_REOPEN_INTERVAL_SEC = 300,
      POSITION_MISMATCH_DISABLE = True\<rparr>"

text \<open>\<^verbatim>\<open>str.lower()\<close> on ASCII: an upper-case letter gets bit 5 set.\<close>

fun lower_char :: "char \<Rightarrow> char" where
  "lower_char (Char b0 b1 b2 b3 b4 b5 b6 b7) =
     (let n = (of_char (Char b0 b1 b2 b3 b4 b5 b6 b7) :: nat)
      in if 65 \<le> n \<and> n \<le> 90 then Char b0 b1 b2 b3 b4 True b6 b7
         else Char b0 b1 b2 b3 b4 b5 b6 b7)"

definition py_lower :: "string \<Rightarrow> string" where
  "py_lower s = map lower_char s"

text \<open>\<^verbatim>\<open>strategy_name in {"mtf_breakout", "mtf"}\<close> after lower-casing.\<close>

definition is_mtf_strategy :: "Config \<Rightarrow> bool" where
  "is_mtf_strategy cfg = (py_lower (STRATEGY_NAME cfg) \<in> {''mtf_breakout'', ''mtf''})"

text \<open>The effective cap on open positions, computed alike by both drivers.\<close>

definition eff_max_positions :: "Config \<Rightarrow> int" where
  "eff_max_positions cfg =
     (let max_positions = MAX_OPEN_POSITIONS cfg;
          mtf_max_pos = (case MTF_MAX_OPEN_POSITIONS cfg of
                           None \<Rightarrow> max_positions | Some m \<Rightarrow> m)
      in if is_mtf_strategy cfg then min max_positions mtf_max_pos else max_positions)"

text \<open>
  \<^verbatim>\<open>age_bars = int(i - pos.open_time)\<close>, with every exception (\<^verbatim>\<open>open_time\<close>
  is \<^verbatim>\<open>None\<close>) giving 0.
\<close>

definition age_bars :: "int \<Rightarrow> PositionState \<Rightarrow> int" where
  "age_bars i pos = (case open_time pos of
      None \<Rightarrow> 0
    | Some t \<Rightarrow> py_trunc (real_of_int i - t))"

text \<open>
  The position both drivers construct on an entry at bar index \<open>i\<close>: stop-loss and
  first target at ATR multiples from the entry price, no trailing stop yet.
\<close>

definition new_position ::
    "Config \<Rightarrow> string \<Rightarrow> int \<Rightarrow> real \<Rightarrow> real \<Rightarrow> string \<Rightarrow> real \<Rightarrow> real \<Rightarrow> PositionState" where
  "new_position cfg symb i price atr side0 notional0 qty0 =
     (let sl = (if side0 = ''long'' then price - ATR_SL_MULT cfg * atr
                else price + ATR_SL_MULT cfg * atr);
          tp = (if side0 = ''long'' then price + ATR_TP_MULT_1 cfg * atr
                else price - ATR_TP_MULT_1 cfg * atr)
      in \<lparr>symbol = symb, entry_price = price, qty = qty0, notional = notional0,
          side = side0, mode = ''futures'', open_time = Some (real_of_int i),
          stop_loss = Some sl, tp1 = Some tp, tp2 = None, peak_price = Some price,
          trailing_stop = None, pyramid_level = 0\<rparr>)"

section \<open>backtest/backtester\_full.py: the simulated ledger\<close>

subsection \<open>Closing\<close>

text \<open>\<^verbatim>\<open>_close_position\<close>: the balance after a full close.\<close>

definition close_position :: "real \<Rightarrow> real \<Rightarrow> PositionState \<Rightarrow> real \<Rightarrow> real" where
  "close_position fee_rate balance pos price =
     (if qty pos \<le> 0 then balance
      else let pnl = (if side pos = ''long'' then (price - entry_price pos) * qty pos
                      else (entry_price pos - price) * qty pos);
               notional_entry = entry_price pos * qty pos;
               notional_exit = price * qty pos;
               fee = (notional_entry + notional_exit) * fee_rate;
               pnl_after_fee = pnl - fee
           in balance + pnl_after_fee)"

text \<open>
  The in-place reduction of a position by \<open>qty_close\<close>, written alike in
  \<^verbatim>\<open>_close_fraction\<close> and \<^verbatim>\<open>_close_fraction_live\<close>: the quantity is lowered and
  floored at zero, the notional recomputed.
\<close>

definition reduce_qty :: "PositionState \<Rightarrow> real \<Rightarrow> PositionState" where
  "reduce_qty pos qty_close =
     (let q1 = qty pos - qty_close;
          q2 = (if q1 < 0 then 0 else q1)
      in pos\<lparr>qty := q2, notional := entry_price pos * q2\<rparr>)"

text \<open>
  \<^verbatim>\<open>_close_fraction\<close>: the new balance and the position after the reduction.
\<close>

definition close_fraction ::
    "real \<Rightarrow> real \<Rightarrow> PositionState \<Rightarrow> real \<Rightarrow> real \<Rightarrow> real \<times> PositionState" where
  "close_fraction fee_rate balance pos price fraction =
     (if fraction \<le> 0 \<or> fraction \<ge> 1 \<or> qty pos \<le> 0 then (balance, pos)
      else let qty_close = qty pos * fraction
           in if qty_close \<le> 0 then (balance, pos)
              else let pnl = (if side pos = ''long'' then (price - entry_price pos) * qty_close
                              else (entry_price pos - price) * qty_close);
                       notional_entry = entry_price pos * qty_close;
                       notional_exit = price * qty_close;
                       fee = (notional_entry + notional_exit) * fee_rate;
                       pnl_after_fee = pnl - fee;
                       new_balance = balance + pnl_after_fee
                   in (new_balance, reduce_qty pos qty_close))"

subsection \<open>Exit management of one open position at one bar\<close>

text \<open>
  What the main loop knows about a symbol at bar \<open>i\<close>: the close, the ATR and the
  strategy's signal on the slice up to \<open>i\<close> (\<^verbatim>\<open>"buy"\<close>, \<^verbatim>\<open>"sell"\<close> or \<^verbatim>\<open>None\<close>).
  A symbol whose data ended before \<open>i\<close> has no snapshot (\<^verbatim>\<open>prices.get(sym)\<close> is
  \<^verbatim>\<open>None\<close>). Indicator computation is outside the model.
\<close>

record snapshot =
  snap_price :: real
  snap_atr :: real
  snap_signal :: "string option"

text \<open>Step 1, the hard stop-loss test.\<close>

definition stop_loss_hit :: "PositionState \<Rightarrow> real \<Rightarrow> bool" where
  "stop_loss_hit pos price = (case stop_loss pos of
      None \<Rightarrow> False
    | Some sl \<Rightarrow> (side pos = ''long'' \<and> price \<le> sl) \<or> (side pos = ''short'' \<and> price \<ge> sl))"

text \<open>The guard of step 2: \<^verbatim>\<open>tp1\<close> is set and the price has crossed it favourably.\<close>

definition tp1_crossed :: "PositionState \<Rightarrow> real \<Rightarrow> bool" where
  "tp1_crossed pos price = (case tp1 pos of
      None \<Rightarrow> False
    | Some t \<Rightarrow> (side pos = ''long'' \<and> price \<ge> t) \<or> (side pos = ''short'' \<and> price \<le> t))"

text \<open>
  The three assignments after the partial close: breakeven stop, trailing stop
  initialised or tightened, \<^verbatim>\<open>tp1\<close> cleared.
\<close>

definition after_tp1 :: "Config \<Rightarrow> PositionState \<Rightarrow> real \<Rightarrow> real \<Rightarrow> PositionState" where
  "after_tp1 cfg pos price atr =
     (let pos1 = pos\<lparr>stop_loss := Some (entry_price pos)\<rparr>;
          new_ts = (if side pos = ''long'' then price - ATR_TS_MULT cfg * atr
                    else price + ATR_TS_MULT cfg * atr);
          pos2 = (case trailing_stop pos1 of
                    None \<Rightarrow> pos1\<lparr>trailing_stop := Some new_ts\<rparr>
                  | Some ts \<Rightarrow>
                      if (if side pos = ''long'' then new_ts > ts else new_ts < ts)
                      then pos1\<lparr>trailing_stop := Some new_ts\<rparr> else pos1)
      in pos2\<lparr>tp1 := None\<rparr>)"

definition bt_tp1_stage ::
    "Config \<Rightarrow> real \<Rightarrow> PositionState \<Rightarrow> real \<Rightarrow> real \<Rightarrow> real \<times> PositionState" where
  "bt_tp1_stage cfg balance pos price atr =
     (if tp1_crossed pos price
      then let (balance1, pos1) = close_fraction (FUTURES_FEE_RATE cfg) balance pos price (1 / 2)
           in (balance1, after_tp1 cfg pos1 price atr)
      else (balance, pos))"

text \<open>
  Step 3, the ratchet of the stored trailing stop: a long only takes a higher
  candidate, any other side only a lower one.
\<close>

definition ratchet_trailing :: "Config \<Rightarrow> PositionState \<Rightarrow> real \<Rightarrow> real \<Rightarrow> PositionState" where
  "ratchet_trailing cfg pos price atr = (case trailing_stop pos of
      None \<Rightarrow> pos
    | Some ts \<Rightarrow>
        if side pos = ''long''
        then (let new_ts = price - ATR_TS_MULT cfg * atr
              in if new_ts > ts then pos\<lparr>trailing_stop := Some new_ts\<rparr> else pos)
        else (let new_ts = price + ATR_TS_MULT cfg * atr
              in if new_ts < ts then pos\<lparr>trailing_stop := Some new_ts\<rparr> else pos))"

definition trailing_hit :: "PositionState \<Rightarrow> real \<Rightarrow> bool" where
  "trailing_hit pos price = (case trailing_stop pos of
      None \<Rightarrow> False
    | Some ts \<Rightarrow> if side pos = ''long'' then price \<le> ts else price \<ge> ts)"

text \<open>Step 3.5, the time-stop test of the backtest loop.\<close>

definition bt_time_stop :: "Config \<Rightarrow> int \<Rightarrow> PositionState \<Rightarrow> bool" where
  "bt_time_stop cfg i pos =
     (MTF_MAX_BARS_IN_POSITION cfg > 0 \<and> is_mtf_strategy cfg
      \<and> age_bars i pos \<ge> MTF_MAX_BARS_IN_POSITION cfg)"

text \<open>Step 4, the reversal test.\<close>

definition reverse_signal :: "PositionState \<Rightarrow> string option \<Rightarrow> bool" where
  "reverse_signal pos sig =
     ((side pos = ''long'' \<and> sig = Some ''sell'') \<or> (side pos = ''short'' \<and> sig = Some ''buy''))"

text \<open>
  The body of the management loop for one open position: the new balance and the
  slot of the symbol (\<open>None\<close> once the position is closed).
\<close>

definition bt_manage ::
    "Config \<Rightarrow> int \<Rightarrow> snapshot option \<Rightarrow> real \<Rightarrow> PositionState
       \<Rightarrow> real \<times> PositionState option" where
  "bt_manage cfg i snap balance pos = (case snap of
      None \<Rightarrow> (balance, Some pos)
    | Some sn \<Rightarrow>
        let price = snap_price sn; atr = snap_atr sn; fee_rate = FUTURES_FEE_RATE cfg
        in if atr \<le> 0 then (balance, Some pos)
           else if stop_loss_hit pos price
           then (close_position fee_rate balance pos price, None)
           else let (balance1, pos1) = bt_tp1_stage cfg balance pos price atr;
                    pos2 = ratchet_trailing cfg pos1 price atr
                in if trailing_hit pos2 price
                   then (close_position fee_rate balance1 pos2 price, None)
                   else if bt_time_stop cfg i pos2
                   then (close_position fee_rate balance1 pos2 price, None)
                   else if reverse_signal pos2 (snap_signal sn)
                   then (close_position fee_rate balance1 pos2 price, None)
                   else (balance1, Some pos2))"

subsection \<open>One iteration of the main loop\<close>

type_synonym ledger = "string \<Rightarrow> PositionState option"

text \<open>The management loop over \<^verbatim>\<open>list(positions.items())\<close>.\<close>

fun bt_manage_all ::
    "Config \<Rightarrow> int \<Rightarrow> (string \<Rightarrow> snapshot option) \<Rightarrow> string list
       \<Rightarrow> real \<times> ledger \<Rightarrow> real \<times> ledger" where
  "bt_manage_all cfg i market [] st = st"
| "bt_manage_all cfg i market (symb # syms) (balance, positions) =
     (case positions symb of
        None \<Rightarrow> bt_manage_all cfg i market syms (balance, positions)
      | Some pos \<Rightarrow>
          (case bt_manage cfg i (market symb) balance pos of
             (balance1, slot) \<Rightarrow>
               bt_manage_all cfg i market syms (balance1, positions(symb := slot))))"

text \<open>Equity: the balance plus the floating PnL of every open position with a price.\<close>

fun bt_equity :: "(string \<Rightarrow> snapshot option) \<Rightarrow> ledger \<Rightarrow> string list \<Rightarrow> real \<Rightarrow> real" where
  "bt_equity market positions [] equity = equity"
| "bt_equity market positions (symb # syms) equity =
     (case positions symb of
        None \<Rightarrow> bt_equity market positions syms equity
      | Some pos \<Rightarrow>
          (case market symb of
             None \<Rightarrow> bt_equity market positions syms equity
           | Some sn \<Rightarrow>
               let pnl = (if side pos = ''long''
                          then (snap_price sn - entry_price pos) * qty pos
                          else (entry_price pos - snap_price sn) * qty pos)
               in bt_equity market positions syms (equity + pnl)))"

definition bt_open_count :: "ledger \<Rightarrow> string list \<Rightarrow> int" where
  "bt_open_count positions symbols = int (length (filter (\<lambda>s. positions s \<noteq> None) symbols))"

text \<open>
  The entry loop over the sorted symbols. Its state is the ledger, \<^verbatim>\<open>open_count\<close>
  and \<^verbatim>\<open>can_open_more\<close>; the last is recomputed after each open against
  \<^verbatim>\<open>max_positions\<close>, as the source writes it. The loop has no guard against a
  zero price: the division in \<^verbatim>\<open>stop_distance_pct\<close> then raises
  ZeroDivisionError, which ends the run (\<open>None\<close>).
\<close>

fun bt_open_loop ::
    "Config \<Rightarrow> RiskManager \<Rightarrow> int \<Rightarrow> (string \<Rightarrow> snapshot option) \<Rightarrow> real \<Rightarrow> string list
       \<Rightarrow> ledger \<times> int \<times> bool \<Rightarrow> (ledger \<times> int \<times> bool) option" where
  "bt_open_loop cfg rm i market equity [] st = Some st"
| "bt_open_loop cfg rm i market equity (symb # syms) (positions, open_count, can_open_more) =
     (if \<not> can_open_more then Some (positions, open_count, can_open_more)
      else if positions symb \<noteq> None
      then bt_open_loop cfg rm i market equity syms (positions, open_count, can_open_more)
      else (case market symb of
         None \<Rightarrow> bt_open_loop cfg rm i market equity syms (positions, open_count, can_open_more)
       | Some sn \<Rightarrow>
           let price = snap_price sn; atr = snap_atr sn; signal = snap_signal sn
           in if atr \<le> 0 \<or> signal \<notin> {Some ''buy'', Some ''sell''}
              then bt_open_loop cfg rm i market equity syms (positions, open_count, can_open_more)
              else if price = 0 then None
              else
                let side0 = (if signal = Some ''buy'' then ''long'' else ''short'');
                    stop_distance_pct = ATR_SL_MULT cfg * atr / price * 100
                in if stop_distance_pct \<le> 0
                   then bt_open_loop cfg rm i market equity syms
                          (positions, open_count, can_open_more)
                   else
                     (case calc_futures_size_from_risk rm equity price stop_distance_pct
                             (RISK_PER_TRADE cfg) (FUTURES_LEVERAGE_DEFAULT cfg) of
                        (notional0, qty0) \<Rightarrow>
                          if notional0 \<le> 0 \<or> qty0 \<le> 0
                          then bt_open_loop cfg rm i market equity syms
                                 (positions, open_count, can_open_more)
                          else
                            let pos = new_position cfg symb i price atr side0 notional0 qty0
                            in bt_open_loop cfg rm i market equity syms
                                 (positions(symb := Some pos), open_count + 1,
                                  open_count + 1 < MAX_OPEN_POSITIONS cfg))))"

text \<open>
  One iteration of \<^verbatim>\<open>for i in range(warmup, max_len)\<close>: nothing happens when no
  symbol has a price; otherwise exits are managed, equity is recomputed and entries
  are taken. The equity curve is not part of the state kept here.
\<close>

definition bt_step ::
    "Config \<Rightarrow> RiskManager \<Rightarrow> string list \<Rightarrow> int \<Rightarrow> (string \<Rightarrow> snapshot option)
       \<Rightarrow> real \<times> ledger \<Rightarrow> (real \<times> ledger) option" where
  "bt_step cfg rm symbols i market st =
     (if list_all (\<lambda>symb. market symb = None) symbols then Some st
      else case bt_manage_all cfg i market symbols st of
        (balance1, positions1) \<Rightarrow>
          let equity = bt_equity market positions1 symbols balance1;
              open_count = bt_open_count positions1 symbols;
              can_open_more = open_count < eff_max_positions cfg
          in map_option (\<lambda>(positions2, n, more). (balance1, positions2))
               (bt_open_loop cfg rm i market equity symbols
                  (positions1, open_count, can_open_more)))"

section \<open>live\_runner.py: the live driver\<close>

subsection \<open>State and collaborators\<close>

text \<open>
  The alert sink records what the notifier was asked to send; a failure of the
  notifier itself is caught and logged by the source and is not modelled.
\<close>

datatype alert =
    RiskGuard
  | PositionMismatch
  | OrderError string string real
  | OpenedPosition string string real real
  | ClosedPosition string string real real real real string

record order =
  o_symbol :: string
  o_side :: string
  o_qty :: real
  o_reduce_only :: bool

text \<open>
  The part of \<^verbatim>\<open>LiveRunner\<close> and of its \<^verbatim>\<open>StateManager\<close> the decision sequence
  reads and writes. \<open>positions\<close> is \<^verbatim>\<open>self._positions\<close>; \<open>state_positions\<close> is
  the persisted block \<^verbatim>\<open>state.data["positions"]\<close>, kept as the record each stored
  dictionary encodes; \<open>order_log\<close> lists every order submitted to the broker,
  whether it was filled or raised.
\<close>

record LiveRunner =
  positions :: "(string \<times> PositionState) list"
  state_positions :: "(string \<times> PositionState) list"
  equity_peak :: "real option"
  realized_pnl :: real
  trading_disabled :: bool
  trade_timestamps :: "real list"
  last_open_time :: "(string \<times> real) list"
  alerts :: "alert list"
  order_log :: "order list"

text \<open>
  The exchange: \<open>None\<close> when \<^verbatim>\<open>self._broker\<close> is \<^verbatim>\<open>None\<close>, otherwise a function
  telling whether the \<open>n\<close>-th submitted order is filled (\<open>True\<close>) or raises.
\<close>

type_synonym broker = "(nat \<Rightarrow> bool) option"

definition create_market_order :: "(nat \<Rightarrow> bool) \<Rightarrow> LiveRunner \<Rightarrow> order \<Rightarrow> bool \<times> LiveRunner" where
  "create_market_order fills s ord =
     (fills (length (order_log s)), s\<lparr>order_log := order_log s @ [ord]\<rparr>)"

text \<open>\<^verbatim>\<open>_update_position_state\<close>: the local cache and the state file together.\<close>

definition update_position_state :: "LiveRunner \<Rightarrow> string \<Rightarrow> PositionState option \<Rightarrow> LiveRunner" where
  "update_position_state s symb slot = (case slot of
      None \<Rightarrow> s\<lparr>positions := AList.delete symb (positions s),
                 state_positions := AList.delete symb (state_positions s)\<rparr>
    | Some pos \<Rightarrow> s\<lparr>positions := AList.update symb pos (positions s),
                    state_positions := AList.update symb pos (state_positions s)\<rparr>)"

text \<open>
  The position object held in \<^verbatim>\<open>self._positions\<close> is mutated in place; a
  mutation that is not followed by \<^verbatim>\<open>_update_position_state\<close> changes the local
  cache only.
\<close>

definition mutate_in_place :: "LiveRunner \<Rightarrow> string \<Rightarrow> PositionState \<Rightarrow> LiveRunner" where
  "mutate_in_place s symb pos = s\<lparr>positions := AList.update symb pos (positions s)\<rparr>"

definition update_equity_peak :: "LiveRunner \<Rightarrow> real \<Rightarrow> LiveRunner" where
  "update_equity_peak s equity = (case equity_peak s of
      None \<Rightarrow> s\<lparr>equity_peak := Some equity\<rparr>
    | Some cur_peak \<Rightarrow> if equity > cur_peak then s\<lparr>equity_peak := Some equity\<rparr> else s)"

subsection \<open>Closing in live mode\<close>

text \<open>
  \<^verbatim>\<open>_close_position_live\<close>. On a filled order the gross PnL is added to the
  realized PnL of the state and the position is removed; on a failed order an
  order-error alert is sent and nothing else changes.
\<close>

definition close_position_live ::
    "broker \<Rightarrow> LiveRunner \<Rightarrow> string \<Rightarrow> PositionState \<Rightarrow> real \<Rightarrow> string \<Rightarrow> LiveRunner" where
  "close_position_live brk s symb pos price reason = (case brk of
      None \<Rightarrow> s
    | Some fills \<Rightarrow>
        if qty pos \<le> 0 then update_position_state s symb None
        else let order_side = (if side pos = ''long'' then ''SELL'' else ''BUY'');
                 qty0 = qty pos
             in case create_market_order fills s
                       \<lparr>o_symbol = symb, o_side = order_side, o_qty = qty0,
                        o_reduce_only = True\<rparr> of
                  (filled, s1) \<Rightarrow>
                    if \<not> filled
                    then s1\<lparr>alerts := alerts s1 @ [OrderError symb (side pos) qty0]\<rparr>
                    else let sign = (if side pos = ''long'' then 1 else - 1);
                             pnl = (price - entry_price pos) * qty0 * sign;
                             s2 = s1\<lparr>realized_pnl := realized_pnl s1 + pnl\<rparr>;
                             s3 = s2\<lparr>alerts := alerts s2 @
                                    [ClosedPosition symb (side pos) qty0 (entry_price pos)
                                       price pnl reason]\<rparr>
                         in update_position_state s3 symb None)"

text \<open>
  \<^verbatim>\<open>_close_fraction_live\<close>: the state and the position object after the call.
  A failed order is only logged.
\<close>

definition close_fraction_live ::
    "broker \<Rightarrow> LiveRunner \<Rightarrow> string \<Rightarrow> PositionState \<Rightarrow> real \<Rightarrow> real \<Rightarrow> string
       \<Rightarrow> LiveRunner \<times> PositionState" where
  "close_fraction_live brk s symb pos price fraction reason = (case brk of
      None \<Rightarrow> (s, pos)
    | Some fills \<Rightarrow>
        if qty pos \<le> 0 \<or> fraction \<le> 0 \<or> fraction \<ge> 1 then (s, pos)
        else let qty_close = qty pos * fraction
             in if qty_close \<le> 0 then (s, pos)
                else let order_side = (if side pos = ''long'' then ''SELL'' else ''BUY'')
                     in case create_market_order fills s
                               \<lparr>o_symbol = symb, o_side = order_side, o_qty = qty_close,
                                o_reduce_only = True\<rparr> of
                          (filled, s1) \<Rightarrow>
                            if \<not> filled then (s1, pos)
                            else let pos1 = reduce_qty pos qty_close
                                 in (update_position_state s1 symb (Some pos1), pos1))"

subsection \<open>The decision sequence on a closed 15-minute candle\<close>

text \<open>
  What \<^verbatim>\<open>_run_strategy_if_ready\<close> works on once the multi-timeframe frame is
  built: the symbol, the index \<open>i\<close> of the last row, its close and ATR, the
  strategy's signal, the answer of \<^verbatim>\<open>get_balance_usdt\<close> (\<open>None\<close> when it raises)
  and the two readings of \<^verbatim>\<open>time.time()\<close>. Building the frame and computing
  the indicators are outside the model.
\<close>

record tick =
  t_symbol :: string
  t_index :: int
  t_price :: real
  t_atr :: real
  t_signal :: "string option"
  t_balance :: "real option"
  t_now :: real
  t_open_ts :: real

text \<open>The hard drawdown guard.\<close>

definition dd_pct :: "Config \<Rightarrow> LiveRunner \<Rightarrow> real \<Rightarrow> real" where
  "dd_pct cfg s equity = (case equity_peak s of
      None \<Rightarrow> 0
    | Some peak_val \<Rightarrow>
        if HARD_MAX_DRAWDOWN_PCT cfg > 0 \<and> equity > 0
        then (if peak_val > 0 then max 0 ((peak_val - equity) / peak_val * 100) else 0)
        else 0)"

definition drawdown_guard :: "Config \<Rightarrow> LiveRunner \<Rightarrow> real \<Rightarrow> LiveRunner" where
  "drawdown_guard cfg s equity =
     (if HARD_MAX_DRAWDOWN_PCT cfg > 0 \<and> dd_pct cfg s equity \<ge> HARD_MAX_DRAWDOWN_PCT cfg
      then (if \<not> trading_disabled s
            then s\<lparr>alerts := alerts s @ [RiskGuard], trading_disabled := True\<rparr>
            else s\<lparr>trading_disabled := True\<rparr>)
      else s)"

text \<open>The time-stop test of the live runner.\<close>

definition live_time_stop :: "Config \<Rightarrow> int \<Rightarrow> PositionState \<Rightarrow> bool" where
  "live_time_stop cfg i pos =
     (MTF_MAX_BARS_IN_POSITION cfg > 0 \<and> age_bars i pos \<ge> MTF_MAX_BARS_IN_POSITION cfg)"

text \<open>
  Step 2 in live mode: the partial close is attempted, and the three assignments
  and the save follow whatever the order did.
\<close>

definition live_tp1_stage ::
    "Config \<Rightarrow> broker \<Rightarrow> LiveRunner \<Rightarrow> string \<Rightarrow> PositionState \<Rightarrow> real \<Rightarrow> real
       \<Rightarrow> LiveRunner \<times> PositionState" where
  "live_tp1_stage cfg brk s symb pos price atr =
     (if tp1_crossed pos price \<and> qty pos > 0
      then case close_fraction_live brk s symb pos price (1 / 2) ''tp1'' of
             (s1, pos1) \<Rightarrow>
               let pos2 = after_tp1 cfg pos1 price atr
               in (update_position_state s1 symb (Some pos2), pos2)
      else (s, pos))"

text \<open>
  Steps 3 to 5 in live mode. The trailing block runs only for a stored trailing
  stop and a positive quantity; it ratchets the stop in place and either attempts
  the close and returns, or saves the position. Then the time-stop and the
  reversal, each ending the processing with a close attempt.
\<close>

definition trailing_active :: "PositionState \<Rightarrow> bool" where
  "trailing_active pos = (trailing_stop pos \<noteq> None \<and> qty pos > 0)"

definition live_exit_tail ::
    "Config \<Rightarrow> broker \<Rightarrow> tick \<Rightarrow> LiveRunner \<Rightarrow> PositionState \<Rightarrow> LiveRunner" where
  "live_exit_tail cfg brk tk s1 pos1 =
     (let symb = t_symbol tk; price = t_price tk; atr = t_atr tk
      in if trailing_active pos1 \<and> trailing_hit (ratchet_trailing cfg pos1 price atr) price
         then let pos2 = ratchet_trailing cfg pos1 price atr
              in close_position_live brk (mutate_in_place s1 symb pos2) symb pos2 price
                   ''trailing_stop''
         else
           let pos2 = (if trailing_active pos1
                       then ratchet_trailing cfg pos1 price atr else pos1);
               s2 = (if trailing_active pos1
                     then update_position_state s1 symb (Some pos2) else s1)
           in if live_time_stop cfg (t_index tk) pos2
              then close_position_live brk s2 symb pos2 price ''time_stop''
              else if reverse_signal pos2 (t_signal tk)
              then close_position_live brk s2 symb pos2 price ''reverse_signal''
              else s2)"

text \<open>
  Exit management of the open position of the symbol, in the order of the source:
  stop-loss, first target, then the remaining steps.
\<close>

definition live_manage ::
    "Config \<Rightarrow> broker \<Rightarrow> tick \<Rightarrow> LiveRunner \<Rightarrow> PositionState \<Rightarrow> LiveRunner" where
  "live_manage cfg brk tk s pos =
     (if stop_loss_hit pos (t_price tk)
      then close_position_live brk s (t_symbol tk) pos (t_price tk) ''stop_loss''
      else case live_tp1_stage cfg brk s (t_symbol tk) pos (t_price tk) (t_atr tk) of
        (s1, pos1) \<Rightarrow> live_exit_tail cfg brk tk s1 pos1)"

text \<open>Opening a new position for a flat symbol, guard by guard.\<close>

definition live_open_count :: "LiveRunner \<Rightarrow> int" where
  "live_open_count s = int (length (positions s))"

text \<open>The rolling one-hour window of the trade-rate limiter and its test.\<close>

definition prune_timestamps :: "Config \<Rightarrow> real \<Rightarrow> LiveRunner \<Rightarrow> LiveRunner" where
  "prune_timestamps cfg now_ts s =
     (if MAX_TRADES_PER_HOUR cfg > 0
      then s\<lparr>trade_timestamps := filter (\<lambda>t. now_ts - t < 3600) (trade_timestamps s)\<rparr>
      else s)"

definition rate_limited :: "Config \<Rightarrow> LiveRunner \<Rightarrow> bool" where
  "rate_limited cfg s =
     (MAX_TRADES_PER_HOUR cfg > 0
      \<and> int (length (trade_timestamps s)) \<ge> MAX_TRADES_PER_HOUR cfg)"

text \<open>The re-entry cooldown (anti-loop) for one symbol.\<close>

definition anti_loop :: "Config \<Rightarrow> string \<Rightarrow> real \<Rightarrow> LiveRunner \<Rightarrow> bool" where
  "anti_loop cfg symb now_ts s =
     (MIN_REOPEN_INTERVAL_SEC cfg > 0
      \<and> (case map_of (last_open_time s) symb of
            None \<Rightarrow> False
          | Some last_open \<Rightarrow> now_ts - last_open < real_of_int (MIN_REOPEN_INTERVAL_SEC cfg)))"

text \<open>
  The market order of an entry and, when it is filled, the registration of the
  new position, the alert and the bookkeeping of the protective layer.
\<close>

definition live_place_entry ::
    "Config \<Rightarrow> broker \<Rightarrow> tick \<Rightarrow> LiveRunner \<Rightarrow> string \<Rightarrow> real \<Rightarrow> real \<Rightarrow> LiveRunner" where
  "live_place_entry cfg brk tk s side0 notional0 qty0 = (case brk of
      None \<Rightarrow> s
    | Some fills \<Rightarrow>
        let symb = t_symbol tk;
            order_side = (if side0 = ''long'' then ''BUY'' else ''SELL'')
        in case create_market_order fills s
                  \<lparr>o_symbol = symb, o_side = order_side, o_qty = qty0,
                   o_reduce_only = False\<rparr> of
             (filled, s2) \<Rightarrow>
               if \<not> filled
               then (s2\<lparr>alerts := alerts s2 @ [OrderError symb side0 qty0]\<rparr>)
               else
                 let pos = new_position cfg symb (t_index tk) (t_price tk) (t_atr tk)
                             side0 notional0 qty0;
                     s3 = update_position_state s2 symb (Some pos);
                     s4 = s3\<lparr>alerts := alerts s3 @
                            [OpenedPosition symb side0 qty0 (t_price tk)]\<rparr>
                 in (s4\<lparr>last_open_time :=
                          AList.update symb (t_open_ts tk) (last_open_time s4),
                        trade_timestamps := trade_timestamps s4 @ [t_open_ts tk]\<rparr>))"

definition live_try_open ::
    "Config \<Rightarrow> RiskManager \<Rightarrow> broker \<Rightarrow> tick \<Rightarrow> real \<Rightarrow> LiveRunner \<Rightarrow> LiveRunner" where
  "live_try_open cfg rm brk tk equity s =
     (let symb = t_symbol tk; price = t_price tk; atr = t_atr tk; signal = t_signal tk
      in if signal \<notin> {Some ''buy'', Some ''sell''} then s
         else if trading_disabled s then s
         else
           let s1 = prune_timestamps cfg (t_now tk) s
           in if rate_limited cfg s1 then s1
              else if anti_loop cfg symb (t_now tk) s1 then s1
              else if live_open_count s1 \<ge> eff_max_positions cfg then s1
              else if equity \<le> 0 then s1
              else
                let stop_distance_abs = ATR_SL_MULT cfg * atr;
                    stop_distance_pct = stop_distance_abs / price * 100
                in case calc_futures_size_from_risk rm equity price stop_distance_pct
                          (RISK_PER_TRADE cfg) (FUTURES_LEVERAGE_DEFAULT cfg) of
                     (notional0, qty0) \<Rightarrow>
                       if notional0 \<le> 0 \<or> qty0 \<le> 0 then s1
                       else live_place_entry cfg brk tk s1
                              (if signal = Some ''buy'' then ''long'' else ''short'')
                              notional0 qty0)"

text \<open>
  \<^verbatim>\<open>_run_strategy_if_ready\<close> from the point where the last row is read: equity
  and peak, drawdown guard, then either exit management of the open position or
  an entry attempt.
\<close>

definition tick_equity :: "broker \<Rightarrow> tick \<Rightarrow> real" where
  "tick_equity brk tk = (case brk of
      None \<Rightarrow> 0
    | Some fills \<Rightarrow> (case t_balance tk of None \<Rightarrow> 0 | Some b \<Rightarrow> b))"

definition guard_stage :: "Config \<Rightarrow> broker \<Rightarrow> tick \<Rightarrow> LiveRunner \<Rightarrow> LiveRunner" where
  "guard_stage cfg brk tk s =
     (let equity = tick_equity brk tk;
          s1 = (if equity > 0 then update_equity_peak s equity else s)
      in drawdown_guard cfg s1 equity)"

definition run_strategy_if_ready ::
    "Config \<Rightarrow> RiskManager \<Rightarrow> broker \<Rightarrow> tick \<Rightarrow> LiveRunner \<Rightarrow> LiveRunner" where
  "run_strategy_if_ready cfg rm brk tk s =
     (if t_price tk \<le> 0 \<or> t_atr tk \<le> 0 then s
      else
        let s2 = guard_stage cfg brk tk s
        in case map_of (positions s2) (t_symbol tk) of
             Some pos \<Rightarrow> live_manage cfg brk tk s2 pos
           | None \<Rightarrow> live_try_open cfg rm brk tk (tick_equity brk tk) s2)"

text \<open>
  The position check of the heartbeat: \<open>exch\<close> lists the tracked symbols the
  exchange reports with a non-zero amount.
\<close>

definition heartbeat_mismatch :: "Config \<Rightarrow> string list \<Rightarrow> LiveRunner \<Rightarrow> LiveRunner" where
  "heartbeat_mismatch cfg exch s =
     (let local_syms = map fst (filter (\<lambda>(k, p). qty p > 0) (positions s))
      in if set exch \<noteq> set local_syms \<and> POSITION_MISMATCH_DISABLE cfg
            \<and> \<not> trading_disabled s
         then s\<lparr>trading_disabled := True, alerts := alerts s @ [PositionMismatch]\<rparr>
         else s)"

text \<open>A run of the live driver: closed candles and heartbeats in the order they arrive.\<close>

datatype event = Candle tick | Heartbeat "string list"

fun live_event :: "Config \<Rightarrow> RiskManager \<Rightarrow> broker \<Rightarrow> event \<Rightarrow> LiveRunner \<Rightarrow> LiveRunner" where
  "live_event cfg rm brk (Candle tk) s = run_strategy_if_ready cfg rm brk tk s"
| "live_event cfg rm brk (Heartbeat exch) s = heartbeat_mismatch cfg exch s"

fun live_run :: "Config \<Rightarrow> RiskManager \<Rightarrow> broker \<Rightarrow> event list \<Rightarrow> LiveRunner \<Rightarrow> LiveRunner" where
  "live_run cfg rm brk [] s = s"
| "live_run cfg rm brk (e # es) s = live_run cfg rm brk es (live_event cfg rm brk e s)"

section \<open>strategies/mtf\_breakout.py: the signal rule\<close>

subsection \<open>The frame\<close>

text \<open>
  A float cell of the data frame; \<open>None\<close> is NaN (for a high-timeframe column
  also \<^verbatim>\<open>pd.NA\<close> or a column the runner could not fill). Every comparison
  with NaN is false and every aggregate of pandas skips NaN, which is how the
  cells are read below. The six low-timeframe columns are taken to exist: they are
  produced by the loader and by the indicator computation.
\<close>

type_synonym cell = "real option"

record row =
  r_close :: cell
  r_high :: cell
  r_low :: cell
  r_volume :: cell
  r_RSI :: cell
  r_ATR :: cell
  HTF_EMA20 :: cell
  HTF_EMA50 :: cell
  HTF_EMA200 :: cell
  HTF_ATR :: cell
  HTF_ADX :: cell
  HTF_RSI :: cell
  HTF_SMA_TREND :: cell

text \<open>The settings the rule reads, with the names of \<^verbatim>\<open>config.py\<close>.\<close>

record StrategyConfig =
  ANTI_CHOP_MIN_ATR_PCT :: real
  BREAKOUT_ADX_MIN :: real
  HTF_VOLATILE_ATR_PCT :: real
  HTF_VOLATILE_DRIFT_PCT :: real
  HTF_VOLATILE_ADX_MAX :: real
  HTF_DRIFT_LOOKBACK_BARS :: int
  MTF_ATR_SUPER_HIGH_PCT :: real
  MTF_DISABLE_VOLATILE_FLAT :: bool
  MTF_DRIFT_LOOKBACK_BARS :: int
  MTF_DRIFT_MIN_PCT :: real
  MTF_DRIFT_STRONG_TREND_PCT :: real
  MTF_DRIFT_ADAPTIVE_ENABLED :: bool
  MTF_DRIFT_MIN_LOOSEN_FACTOR :: real
  MTF_STRONG_TREND_ADX_MARGIN :: real
  MTF_LTF_LOOKBACK :: int
  MTF_ATR_LOW_VOL_PCT :: real
  MTF_ATR_HIGH_VOL_PCT :: real
  MTF_LOOKBACK_MIN :: int
  MTF_LOOKBACK_MAX :: int
  BREAKOUT_BUFFER_PCT :: real
  BREAKOUT_VOLUME_MULT :: real
  LTF_ATR_MIN_PCT :: real
  LTF_MICRO_ATR_PCT :: real
  LTF_SLOPE_LOOKBACK :: int
  LTF_SLOPE_MIN_ABS :: real
  LTF_VOLATILE_SLOPE_FACTOR :: real
  MTF_RSI_LONG_MIN :: real
  MTF_RSI_LONG_MAX :: real
  MTF_RSI_SHORT_MIN :: real
  MTF_RSI_SHORT_MAX :: real
  MTF_RSI_LONG_TIGHTEN :: real
  MTF_RSI_SHORT_TIGHTEN :: real

text \<open>
  The values of \<^verbatim>\<open>config.py\<close> as shipped; an attribute the module lacks has the
  default the rule passes to \<^verbatim>\<open>getattr\<close>.
\<close>

definition shipped_strategy_config :: StrategyConfig where
  "shipped_strategy_config =
     \<lparr>ANTI_CHOP_MIN_ATR_PCT = 5 / 10000, BREAKOUT_ADX_MIN = 20,
      HTF_VOLATILE_ATR_PCT = 4 / 1000, HTF_VOLATILE_DRIFT_PCT = 6 / 1000,
      HTF_VOLATILE_ADX_MAX = 22, HTF_DRIFT_LOOKBACK_BARS = 16,
      MTF_ATR_SUPER_HIGH_PCT = 2 / 100, MTF_DISABLE_VOLATILE_FLAT = True,
      MTF_DRIFT_LOOKBACK_BARS = 96, MTF_DRIFT_MIN_PCT = 6 / 1000,
      MTF_DRIFT_STRONG_TREND_PCT = 1 / 100, MTF_DRIFT_ADAPTIVE_ENABLED = True,
      MTF_DRIFT_MIN_LOOSEN_FACTOR = 7 / 10, MTF_STRONG_TREND_ADX_MARGIN = 5,
      MTF_LTF_LOOKBACK = 60, MTF_ATR_LOW_VOL_PCT = 3 / 1000,
      MTF_ATR_HIGH_VOL_PCT = 15 / 1000, MTF_LOOKBACK_MIN = 40, MTF_LOOKBACK_MAX = 80,
      BREAKOUT_BUFFER_PCT = 1 / 1000, BREAKOUT_VOLUME_MULT = 15 / 10,
      LTF_ATR_MIN_PCT = 2 / 10000, LTF_MICRO_ATR_PCT = 15 / 10000,
      LTF_SLOPE_LOOKBACK = 30, LTF_SLOPE_MIN_ABS = 1 / 1000,
      LTF_VOLATILE_SLOPE_FACTOR = 5, MTF_RSI_LONG_MIN = 50, MTF_RSI_LONG_MAX = 85,
      MTF_RSI_SHORT_MIN = 15, MTF_RSI_SHORT_MAX = 55, MTF_RSI_LONG_TIGHTEN = 5,
      MTF_RSI_SHORT_TIGHTEN = 5\<rparr>"

subsection \<open>Positional access and aggregates as pandas has them\<close>

text \<open>
  \<^verbatim>\<open>xs.iloc[i]\<close>: a negative index counts from the end, an index out of range
  raises IndexError (\<open>None\<close>).
\<close>

definition py_iloc :: "'a list \<Rightarrow> int \<Rightarrow> 'a option" where
  "py_iloc xs i =
     (let n = int (length xs); j = (if i < 0 then n + i else i)
      in if 0 \<le> j \<and> j < n then Some (xs ! nat j) else None)"

text \<open>\<^verbatim>\<open>xs.iloc[start:stop]\<close>: both bounds are clamped, never an error.\<close>

definition py_slice :: "'a list \<Rightarrow> int \<Rightarrow> int \<Rightarrow> 'a list" where
  "py_slice xs start stop =
     (let n = int (length xs);
          a = (if start < 0 then max (start + n) 0 else min start n);
          b = (if stop < 0 then max (stop + n) 0 else min stop n)
      in take (nat (b - a)) (drop (nat a) xs))"

text \<open>The values of a column that are not NaN.\<close>

fun present :: "cell list \<Rightarrow> real list" where
  "present [] = []"
| "present (None # cs) = present cs"
| "present (Some v # cs) = v # present cs"

text \<open>
  \<^verbatim>\<open>Series.max()\<close>, \<^verbatim>\<open>Series.min()\<close> and \<^verbatim>\<open>Series.mean()\<close> skip NaN and give
  NaN on nothing.
\<close>

definition nan_max :: "cell list \<Rightarrow> cell" where
  "nan_max cs = (if present cs = [] then None else Some (Max (set (present cs))))"

definition nan_min :: "cell list \<Rightarrow> cell" where
  "nan_min cs = (if present cs = [] then None else Some (Min (set (present cs))))"

definition nan_mean :: "cell list \<Rightarrow> cell" where
  "nan_mean cs =
     (if present cs = [] then None
      else Some (sum_list (present cs) / real (length (present cs))))"

text \<open>Comparisons of a float with a cell: false on NaN.\<close>

definition above :: "real \<Rightarrow> cell \<Rightarrow> bool" where
  "above x c = (case c of None \<Rightarrow> False | Some t \<Rightarrow> x > t)"

definition below :: "real \<Rightarrow> cell \<Rightarrow> bool" where
  "below x c = (case c of None \<Rightarrow> False | Some t \<Rightarrow> x < t)"

definition below_cell :: "cell \<Rightarrow> real \<Rightarrow> bool" where
  "below_cell c x = (case c of None \<Rightarrow> False | Some v \<Rightarrow> v < x)"

definition in_band :: "cell \<Rightarrow> real \<Rightarrow> real \<Rightarrow> bool" where
  "in_band c lo hi = (case c of None \<Rightarrow> False | Some r \<Rightarrow> lo \<le> r \<and> r \<le> hi)"

subsection \<open>The steps of the rule\<close>

text \<open>
  The seven high-timeframe cells and the close of the last row must all be
  numbers; the result keeps the six the rule uses afterwards.
\<close>

definition htf_inputs :: "row \<Rightarrow> (real \<times> real \<times> real \<times> real \<times> real \<times> real) option" where
  "htf_inputs last_row =
     Option.bind (r_close last_row) (\<lambda>close.
     Option.bind (HTF_EMA20 last_row) (\<lambda>ema20_h.
     Option.bind (HTF_EMA50 last_row) (\<lambda>ema50_h.
     Option.bind (HTF_EMA200 last_row) (\<lambda>ema200_h.
     Option.bind (HTF_ATR last_row) (\<lambda>atr_h.
     Option.bind (HTF_ADX last_row) (\<lambda>adx_h.
     Option.bind (HTF_RSI last_row) (\<lambda>rsi_h.
     Option.bind (HTF_SMA_TREND last_row) (\<lambda>sma_trend_h.
       Some (close, ema20_h, ema50_h, ema200_h, atr_h, adx_h)))))))))"

definition htf_regime :: "real \<Rightarrow> real \<Rightarrow> real \<Rightarrow> string" where
  "htf_regime ema20_h ema50_h ema200_h =
     (if ema20_h > ema50_h \<and> ema50_h > ema200_h then ''bull''
      else if ema20_h < ema50_h \<and> ema50_h < ema200_h then ''bear''
      else ''none'')"

text \<open>
  The drift of the close over a lookback, as computed for both the high-timeframe
  approximation and the daily drift: 0 unless the frame is long enough, both closes
  are positive numbers and no lookup fails.
\<close>

definition close_drift :: "row list \<Rightarrow> int \<Rightarrow> real" where
  "close_drift df lookback =
     (if int (length df) > lookback + 1
      then (case py_iloc (map r_close df) (- 1) of
              Some (Some last_p) \<Rightarrow>
                (case py_iloc (map r_close df) (- lookback - 1) of
                   Some (Some prev_p) \<Rightarrow>
                     if last_p > 0 \<and> prev_p > 0 then \<bar>last_p - prev_p\<bar> / last_p else 0
                 | _ \<Rightarrow> 0)
            | _ \<Rightarrow> 0)
      else 0)"

text \<open>The adaptive minimum drift.\<close>

definition drift_min_eff :: "StrategyConfig \<Rightarrow> real \<Rightarrow> real \<Rightarrow> real" where
  "drift_min_eff scfg atr_pct_h adx_h =
     (if MTF_DRIFT_ADAPTIVE_ENABLED scfg
         \<and> adx_h \<ge> BREAKOUT_ADX_MIN scfg + MTF_STRONG_TREND_ADX_MARGIN scfg
         \<and> atr_pct_h \<ge> ANTI_CHOP_MIN_ATR_PCT scfg * (15 / 10)
         \<and> atr_pct_h \<le> HTF_VOLATILE_ATR_PCT scfg
      then MTF_DRIFT_MIN_PCT scfg * MTF_DRIFT_MIN_LOOSEN_FACTOR scfg
      else MTF_DRIFT_MIN_PCT scfg)"

text \<open>The dynamic breakout lookback.\<close>

definition lookback_ltf :: "StrategyConfig \<Rightarrow> real \<Rightarrow> real \<Rightarrow> int" where
  "lookback_ltf scfg atr_pct_h drift =
     (let base_lookback = MTF_LTF_LOOKBACK scfg;
          lb_min = MTF_LOOKBACK_MIN scfg; lb_max = MTF_LOOKBACK_MAX scfg;
          lookback0 =
            (if atr_pct_h < MTF_ATR_LOW_VOL_PCT scfg
             then min lb_max (py_trunc (real_of_int base_lookback * (13 / 10)))
             else if atr_pct_h > MTF_ATR_HIGH_VOL_PCT scfg
             then max lb_min (py_trunc (real_of_int base_lookback * (7 / 10)))
             else base_lookback)
      in if drift > MTF_DRIFT_MIN_PCT scfg \<and> drift < MTF_DRIFT_STRONG_TREND_PCT scfg
         then min lb_max (py_trunc (real_of_int lookback0 * (12 / 10)))
         else if drift \<ge> MTF_DRIFT_STRONG_TREND_PCT scfg
         then max lb_min (py_trunc (real_of_int lookback0 * (85 / 100)))
         else lookback0)"

text \<open>
  The relative slope of the close over the slope lookback: \<open>None\<close> when it is not
  computed or is NaN, in both of which cases the sawtooth filter does not reject.
\<close>

definition slope_abs :: "row list \<Rightarrow> int \<Rightarrow> cell" where
  "slope_abs df slope_lookback =
     (case py_iloc (map r_close df) (- 1) of
        Some (Some last_p) \<Rightarrow>
          if int (length df) > slope_lookback + 1
          then (case py_iloc (map r_close df) (- slope_lookback - 1) of
                  Some (Some prev_p) \<Rightarrow>
                    if last_p > 0 then Some (\<bar>last_p - prev_p\<bar> / last_p) else None
                | _ \<Rightarrow> None)
          else None
      | _ \<Rightarrow> None)"

text \<open>The adaptive lower bound of the long band and upper bound of the short band.\<close>

definition rsi_long_min_eff :: "StrategyConfig \<Rightarrow> real \<Rightarrow> real" where
  "rsi_long_min_eff scfg drift =
     (if drift > MTF_DRIFT_MIN_PCT scfg \<and> drift < MTF_DRIFT_STRONG_TREND_PCT scfg
      then MTF_RSI_LONG_MIN scfg + MTF_RSI_LONG_TIGHTEN scfg
      else if drift \<ge> MTF_DRIFT_STRONG_TREND_PCT scfg
      then max 40 (MTF_RSI_LONG_MIN scfg - MTF_RSI_LONG_TIGHTEN scfg * (1 / 2))
      else MTF_RSI_LONG_MIN scfg)"

definition rsi_short_max_eff :: "StrategyConfig \<Rightarrow> real \<Rightarrow> real" where
  "rsi_short_max_eff scfg drift =
     (if drift > MTF_DRIFT_MIN_PCT scfg \<and> drift < MTF_DRIFT_STRONG_TREND_PCT scfg
      then MTF_RSI_SHORT_MAX scfg - MTF_RSI_SHORT_TIGHTEN scfg
      else if drift \<ge> MTF_DRIFT_STRONG_TREND_PCT scfg
      then min 60 (MTF_RSI_SHORT_MAX scfg + MTF_RSI_SHORT_TIGHTEN scfg * (1 / 2))
      else MTF_RSI_SHORT_MAX scfg)"

subsection \<open>The rule\<close>

text \<open>
  \<^verbatim>\<open>MTFBreakoutStrategy.signal\<close> once the eight required cells of the last row are
  numbers, step by step in the order of the source; every \<^verbatim>\<open>return None\<close> is a
  branch.
\<close>

definition signal_core ::
    "StrategyConfig \<Rightarrow> row list \<Rightarrow> real \<Rightarrow> real \<Rightarrow> real \<Rightarrow> real \<Rightarrow> real \<Rightarrow> real
       \<Rightarrow> string option" where
  "signal_core scfg df close ema20_h ema50_h ema200_h atr_h adx_h =
     (let regime = htf_regime ema20_h ema50_h ema200_h
      in if regime = ''none'' then None
         else if close \<le> 0 \<or> atr_h \<le> 0 then None
         else
           let atr_pct_h = atr_h / close
           in if atr_pct_h < ANTI_CHOP_MIN_ATR_PCT scfg then None
              else if adx_h < BREAKOUT_ADX_MIN scfg then None
              else
                let drift_h = close_drift df (HTF_DRIFT_LOOKBACK_BARS scfg)
                in if atr_pct_h > HTF_VOLATILE_ATR_PCT scfg
                      \<and> drift_h < HTF_VOLATILE_DRIFT_PCT scfg
                      \<and> adx_h < HTF_VOLATILE_ADX_MAX scfg
                   then None
                   else if MTF_DISABLE_VOLATILE_FLAT scfg
                           \<and> atr_pct_h > MTF_ATR_SUPER_HIGH_PCT scfg
                   then None
                   else
                     let drift = close_drift df (MTF_DRIFT_LOOKBACK_BARS scfg)
                     in if drift < drift_min_eff scfg atr_pct_h adx_h then None
                        else
                          let lookback = lookback_ltf scfg atr_pct_h drift
                          in if int (length df) < lookback + 2 then None
                             else
                               let recent = py_slice df (- lookback - 1) (- 1);
                                   range_high = nan_max (map r_high recent);
                                   range_low = nan_min (map r_low recent);
                                   buf = BREAKOUT_BUFFER_PCT scfg;
                                   long_trigger = map_option (\<lambda>h. h * (1 + buf)) range_high;
                                   short_trigger = map_option (\<lambda>l. l * (1 - buf)) range_low;
                                   vol_ma = nan_mean (map r_volume recent);
                                   volume = r_volume (last df);
                                   atr_ltf = r_ATR (last df);
                                   rsi_ltf = r_RSI (last df)
                               in if (case vol_ma of
                                        None \<Rightarrow> False
                                      | Some m \<Rightarrow>
                                          m > 0 \<and> below_cell volume
                                                    (m * BREAKOUT_VOLUME_MULT scfg))
                                  then None
                                  else if close \<le> 0
                                          \<or> (case atr_ltf of None \<Rightarrow> False | Some a \<Rightarrow> a \<le> 0)
                                  then None
                                  else if (case atr_ltf of
                                             None \<Rightarrow> False
                                           | Some a \<Rightarrow> a / close < LTF_ATR_MIN_PCT scfg)
                                  then None
                                  else if (case slope_abs df (LTF_SLOPE_LOOKBACK scfg) of
                                             None \<Rightarrow> False
                                           | Some sl \<Rightarrow>
                                               (case atr_ltf of
                                                  None \<Rightarrow> False
                                                | Some a \<Rightarrow> a / close > LTF_MICRO_ATR_PCT scfg)
                                               \<and> sl < LTF_SLOPE_MIN_ABS scfg
                                                       * LTF_VOLATILE_SLOPE_FACTOR scfg)
                                  then None
                                  else if regime = ''bull'' \<and> above close long_trigger
                                          \<and> in_band rsi_ltf (rsi_long_min_eff scfg drift)
                                                (MTF_RSI_LONG_MAX scfg)
                                  then Some ''buy''
                                  else if regime = ''bear'' \<and> below close short_trigger
                                          \<and> in_band rsi_ltf (MTF_RSI_SHORT_MIN scfg)
                                                (rsi_short_max_eff scfg drift)
                                  then Some ''sell''
                                  else None)"

text \<open>The whole rule: at least 100 rows, the required cells, then the steps.\<close>

definition signal :: "StrategyConfig \<Rightarrow> row list \<Rightarrow> string option" where
  "signal scfg df =
     (if length df < 100 then None
      else case htf_inputs (last df) of
             None \<Rightarrow> None
           | Some (close, ema20_h, ema50_h, ema200_h, atr_h, adx_h) \<Rightarrow>
               signal_core scfg df close ema20_h ema50_h ema200_h atr_h adx_h)"

section \<open>Observers used by the properties\<close>

text \<open>
  The ratchet relation between the position before and after a step: the side is
  kept, and a stored trailing stop stays stored and moves only in the favourable
  direction (up for a long, down for any other side).
\<close>

definition ts_le :: "PositionState \<Rightarrow> PositionState \<Rightarrow> bool" where
  "ts_le p p' = (side p' = side p \<and> (\<forall>v. trailing_stop p = Some v \<longrightarrow>
      (\<exists>v'. trailing_stop p' = Some v' \<and> (if side p = ''long'' then v \<le> v' else v' \<le> v))))"

text \<open>
  The guard under which step 2 runs in the backtest loop at one bar: the symbol
  has a snapshot with a positive ATR, the stop-loss did not end the processing,
  and the first target is crossed.
\<close>

definition bt_tp1_fires :: "snapshot option \<Rightarrow> PositionState \<Rightarrow> bool" where
  "bt_tp1_fires snap pos = (case snap of
      None \<Rightarrow> False
    | Some sn \<Rightarrow> snap_atr sn > 0 \<and> \<not> stop_loss_hit pos (snap_price sn)
                 \<and> tp1_crossed pos (snap_price sn))"

text \<open>
  The number of bars at which step 2 runs during the life of one position, over
  consecutive bars starting at index \<open>i\<close>; the count ends when the position is
  closed.
\<close>

fun bt_tp1_count ::
    "Config \<Rightarrow> int \<Rightarrow> snapshot option list \<Rightarrow> real \<Rightarrow> PositionState \<Rightarrow> nat" where
  "bt_tp1_count cfg i [] balance pos = 0"
| "bt_tp1_count cfg i (snap # snaps) balance pos =
     (if bt_tp1_fires snap pos then 1 else 0)
     + (case bt_manage cfg i snap balance pos of
          (balance1, None) \<Rightarrow> 0
        | (balance1, Some pos1) \<Rightarrow> bt_tp1_count cfg (i + 1) snaps balance1 pos1)"

text \<open>
  The same guard in live mode, for the position held for symbol \<open>k\<close>: the event
  is a closed candle of that symbol that reaches exit management, and the first
  target is crossed with a positive quantity left.
\<close>

definition live_tp1_fires :: "string \<Rightarrow> event \<Rightarrow> PositionState \<Rightarrow> bool" where
  "live_tp1_fires k e pos = (case e of
      Heartbeat exch \<Rightarrow> False
    | Candle tk \<Rightarrow> t_symbol tk = k \<and> t_price tk > 0 \<and> t_atr tk > 0
                   \<and> \<not> stop_loss_hit pos (t_price tk)
                   \<and> tp1_crossed pos (t_price tk) \<and> qty pos > 0)"

text \<open>
  The number of events at which step 2 runs for the position of symbol \<open>k\<close>,
  until that position leaves the ledger.
\<close>

fun live_tp1_count ::
    "Config \<Rightarrow> RiskManager \<Rightarrow> broker \<Rightarrow> string \<Rightarrow> event list \<Rightarrow> LiveRunner \<Rightarrow> nat" where
  "live_tp1_count cfg rm brk k [] s = 0"
| "live_tp1_count cfg rm brk k (e # es) s = (case map_of (positions s) k of
      None \<Rightarrow> 0
    | Some pos \<Rightarrow> (if live_tp1_fires k e pos then 1 else 0)
                  + live_tp1_count cfg rm brk k es (live_event cfg rm brk e s))"

text \<open>
  What exit management can leave in the slot of the symbol after one candle, if
  the position stays: the position itself or its ratcheted form when step 2 did
  not run, and otherwise the position after step 2 (reduced or not, as the order
  was filled or not), ratcheted or not.
\<close>

definition slot_rel :: "Config \<Rightarrow> tick \<Rightarrow> PositionState \<Rightarrow> PositionState \<Rightarrow> bool" where
  "slot_rel cfg tk p p' =
     (if tp1_crossed p (t_price tk) \<and> qty p > 0 \<and> \<not> stop_loss_hit p (t_price tk)
         then (\<exists>p1. (p1 = after_tp1 cfg p (t_price tk) (t_atr tk)
                    \<or> p1 = after_tp1 cfg (reduce_qty p (qty p * (1 / 2))) (t_price tk) (t_atr tk))
                  \<and> (p' = p1 \<or> p' = ratchet_trailing cfg p1 (t_price tk) (t_atr tk)))
         else (p' = p \<or> p' = ratchet_trailing cfg p (t_price tk) (t_atr tk)))"

text \<open>
  The window the breakout range is taken over and the two triggers, as the rule
  computes them from the frame, the close and the high-timeframe ATR of the last
  row.
\<close>

definition breakout_window :: "StrategyConfig \<Rightarrow> row list \<Rightarrow> real \<Rightarrow> real \<Rightarrow> row list" where
  "breakout_window scfg df close atr_h =
     py_slice df
       (- lookback_ltf scfg (atr_h / close) (close_drift df (MTF_DRIFT_LOOKBACK_BARS scfg)) - 1)
       (- 1)"

definition long_trigger :: "StrategyConfig \<Rightarrow> row list \<Rightarrow> real \<Rightarrow> real \<Rightarrow> cell" where
  "long_trigger scfg df close atr_h =
     map_option (\<lambda>h. h * (1 + BREAKOUT_BUFFER_PCT scfg))
       (nan_max (map r_high (breakout_window scfg df close atr_h)))"

definition short_trigger :: "StrategyConfig \<Rightarrow> row list \<Rightarrow> real \<Rightarrow> real \<Rightarrow> cell" where
  "short_trigger scfg df close atr_h =
     map_option (\<lambda>l. l * (1 - BREAKOUT_BUFFER_PCT scfg))
       (nan_min (map r_low (breakout_window scfg df close atr_h)))"

text \<open>
  The three conditions of a buy: the high-timeframe EMAs strictly ordered
  20 over 50 over 200, the close strictly above the long trigger, the low-timeframe
  RSI inside the long band. And of a sell, mirrored.
\<close>

definition core_buy ::
    "StrategyConfig \<Rightarrow> row list \<Rightarrow> real \<Rightarrow> real \<Rightarrow> real \<Rightarrow> real \<Rightarrow> real \<Rightarrow> bool" where
  "core_buy scfg df close ema20_h ema50_h ema200_h atr_h =
     (ema20_h > ema50_h \<and> ema50_h > ema200_h
      \<and> above close (long_trigger scfg df close atr_h)
      \<and> in_band (r_RSI (last df))
           (rsi_long_min_eff scfg (close_drift df (MTF_DRIFT_LOOKBACK_BARS scfg)))
           (MTF_RSI_LONG_MAX scfg))"

definition core_sell ::
    "StrategyConfig \<Rightarrow> row list \<Rightarrow> real \<Rightarrow> real \<Rightarrow> real \<Rightarrow> real \<Rightarrow> real \<Rightarrow> bool" where
  "core_sell scfg df close ema20_h ema50_h ema200_h atr_h =
     (ema20_h < ema50_h \<and> ema50_h < ema200_h
      \<and> below close (short_trigger scfg df close atr_h)
      \<and> in_band (r_RSI (last df)) (MTF_RSI_SHORT_MIN scfg)
           (rsi_short_max_eff scfg (close_drift df (MTF_DRIFT_LOOKBACK_BARS scfg))))"

text \<open>
  The filter steps before the final decision, each as the negation of its
  \<^verbatim>\<open>return None\<close>: a regime exists, the market is not too quiet, the trend is
  strong enough, not volatile-trendless, not a volatile flat, enough drift, enough
  rows for the range, enough volume, enough low-timeframe ATR, no sawtooth.
\<close>

definition core_filters ::
    "StrategyConfig \<Rightarrow> row list \<Rightarrow> real \<Rightarrow> real \<Rightarrow> real \<Rightarrow> real \<Rightarrow> real \<Rightarrow> real \<Rightarrow> bool" where
  "core_filters scfg df close ema20_h ema50_h ema200_h atr_h adx_h =
     (((ema20_h > ema50_h \<and> ema50_h > ema200_h) \<or> (ema20_h < ema50_h \<and> ema50_h < ema200_h))
      \<and> close > 0 \<and> atr_h > 0
      \<and> atr_h / close \<ge> ANTI_CHOP_MIN_ATR_PCT scfg
      \<and> adx_h \<ge> BREAKOUT_ADX_MIN scfg
      \<and> \<not> (atr_h / close > HTF_VOLATILE_ATR_PCT scfg
             \<and> close_drift df (HTF_DRIFT_LOOKBACK_BARS scfg) < HTF_VOLATILE_DRIFT_PCT scfg
             \<and> adx_h < HTF_VOLATILE_ADX_MAX scfg)
      \<and> \<not> (MTF_DISABLE_VOLATILE_FLAT scfg \<and> atr_h / close > MTF_ATR_SUPER_HIGH_PCT scfg)
      \<and> close_drift df (MTF_DRIFT_LOOKBACK_BARS scfg) \<ge> drift_min_eff scfg (atr_h / close) adx_h
      \<and> int (length df)
           \<ge> lookback_ltf scfg (atr_h / close) (close_drift df (MTF_DRIFT_LOOKBACK_BARS scfg)) + 2
      \<and> \<not> (case nan_mean (map r_volume (breakout_window scfg df close atr_h)) of
               None \<Rightarrow> False
             | Some m \<Rightarrow> m > 0 \<and> below_cell (r_volume (last df)) (m * BREAKOUT_VOLUME_MULT scfg))
      \<and> \<not> (case r_ATR (last df) of None \<Rightarrow> False | Some a \<Rightarrow> a \<le> 0)
      \<and> \<not> (case r_ATR (last df) of None \<Rightarrow> False | Some a \<Rightarrow> a / close < LTF_ATR_MIN_PCT scfg)
      \<and> \<not> (case slope_abs df (LTF_SLOPE_LOOKBACK scfg) of
               None \<Rightarrow> False
             | Some sl \<Rightarrow>
                 (case r_ATR (last df) of
                    None \<Rightarrow> False
                  | Some a \<Rightarrow> a / close > LTF_MICRO_ATR_PCT scfg)
                 \<and> sl < LTF_SLOPE_MIN_ABS scfg * LTF_VOLATILE_SLOPE_FACTOR scfg))"

text \<open>
  The same three predicates on a frame: the required cells are read from its last
  row; a frame without rows, or with a required cell that is not a number, meets
  none of them.
\<close>

definition last_inputs :: "row list \<Rightarrow> (real \<times> real \<times> real \<times> real \<times> real \<times> real) option" where
  "last_inputs df = (if df = [] then None else htf_inputs (last df))"

definition buy_conditions :: "StrategyConfig \<Rightarrow> row list \<Rightarrow> bool" where
  "buy_conditions scfg df = (case last_inputs df of
      None \<Rightarrow> False
    | Some (close, ema20_h, ema50_h, ema200_h, atr_h, adx_h) \<Rightarrow>
        core_buy scfg df close ema20_h ema50_h ema200_h atr_h)"

definition sell_conditions :: "StrategyConfig \<Rightarrow> row list \<Rightarrow> bool" where
  "sell_conditions scfg df = (case last_inputs df of
      None \<Rightarrow> False
    | Some (close, ema20_h, ema50_h, ema200_h, atr_h, adx_h) \<Rightarrow>
        core_sell scfg df close ema20_h ema50_h ema200_h atr_h)"

definition earlier_filters_pass :: "StrategyConfig \<Rightarrow> row list \<Rightarrow> bool" where
  "earlier_filters_pass scfg df =
     (length df \<ge> 100 \<and> (case last_inputs df of
        None \<Rightarrow> False
      | Some (close, ema20_h, ema50_h, ema200_h, atr_h, adx_h) \<Rightarrow>
          core_filters scfg df close ema20_h ema50_h ema200_h atr_h adx_h))"

text \<open>
  The ledger side of the live state: positions held and persisted, realized PnL
  and the orders submitted. Alerts and the protective flags are left out.
\<close>

definition ledger_view :: "LiveRunner \<Rightarrow> (string \<times> PositionState) list \<times> (string \<times> PositionState) list \<times> real \<times> order list" where
  "ledger_view s = (positions s, state_positions s, realized_pnl s, order_log s)"

section \<open>Concrete inputs\<close>

text \<open>
  A long position of two contracts entered at 100 with the stop at 90 and the first
  target at 120, the same position after the first target was taken (half closed,
  stop at breakeven, trailing stop at 110), and the position with the trailing stop
  set but nothing closed.
\<close>

definition example_long :: PositionState where
  "example_long =
     \<lparr>symbol = ''BTCUSDT'', entry_price = 100, qty = 2, notional = 200, side = ''long'',
      mode = ''futures'', open_time = Some 0, stop_loss = Some 90, tp1 = Some 120,
      tp2 = None, peak_price = Some 100, trailing_stop = None, pyramid_level = 0\<rparr>"

definition halved_long :: PositionState where
  "halved_long = example_long\<lparr>qty := 1, notional := 100, stop_loss := Some 100, tp1 := None,
      trailing_stop := Some 110\<rparr>"

definition trailing_long :: PositionState where
  "trailing_long = example_long\<lparr>stop_loss := Some 100, tp1 := None, trailing_stop := Some 110\<rparr>"

text \<open>A live state holding that position, with an equity peak of 1000.\<close>

definition example_runner :: LiveRunner where
  "example_runner =
     \<lparr>positions = [(''BTCUSDT'', example_long)],
      state_positions = [(''BTCUSDT'', example_long)],
      equity_peak = Some 1000, realized_pnl = 0, trading_disabled = False,
      trade_timestamps = [], last_open_time = [], alerts = [], order_log = []\<rparr>"

text \<open>The same state once the drawdown guard has tripped.\<close>

definition tripped_runner :: LiveRunner where
  "tripped_runner = example_runner\<lparr>trading_disabled := True, alerts := [RiskGuard]\<rparr>"

text \<open>A closed candle of the held symbol, a candle of a flat symbol with a buy signal, a bar.\<close>

definition candle :: "int \<Rightarrow> real \<Rightarrow> real \<Rightarrow> string option \<Rightarrow> real option \<Rightarrow> tick" where
  "candle i price atr sig bal =
     \<lparr>t_symbol = ''BTCUSDT'', t_index = i, t_price = price, t_atr = atr, t_signal = sig,
      t_balance = bal, t_now = 0, t_open_ts = 0\<rparr>"

definition eth_tick :: tick where
  "eth_tick = \<lparr>t_symbol = ''ETHUSDT'', t_index = 11, t_price = 50, t_atr = 1,
      t_signal = Some ''buy'', t_balance = Some 950, t_now = 0, t_open_ts = 0\<rparr>"

definition bar :: "real \<Rightarrow> snapshot option" where
  "bar price = Some \<lparr>snap_price = price, snap_atr = 2, snap_signal = None\<rparr>"

text \<open>
  Three variants of the shipped settings: a strategy-specific cap of one position,
  a strategy name other than the multi-timeframe one, and a hard drawdown limit of
  10 percent.
\<close>

definition tight_mtf_config :: Config where
  "tight_mtf_config = shipped_config\<lparr>MTF_MAX_OPEN_POSITIONS := Some 1\<rparr>"

definition htf_config :: Config where
  "htf_config = shipped_config\<lparr>STRATEGY_NAME := ''htf_breakout''\<rparr>"

definition guarded_config :: Config where
  "guarded_config = shipped_config\<lparr>HARD_MAX_DRAWDOWN_PCT := 10\<rparr>"

text \<open>
  Frames of 100 rows: 99 quiet rows (close 100, range 99 to 101, volume 10, bullish
  high-timeframe EMAs) followed by a breakout row closing at 102 on volume 20; the
  mirrored breakdown closing at 98 under bearish EMAs; and 100 quiet rows.
\<close>

definition quiet_row :: row where
  "quiet_row = \<lparr>r_close = Some 100, r_high = Some 101, r_low = Some 99, r_volume = Some 10,
     r_RSI = Some 50, r_ATR = Some (1 / 10), HTF_EMA20 = Some 3, HTF_EMA50 = Some 2,
     HTF_EMA200 = Some 1, HTF_ATR = Some (3 / 10), HTF_ADX = Some 30, HTF_RSI = Some 60,
     HTF_SMA_TREND = Some 1\<rparr>"

definition breakout_row :: row where
  "breakout_row = quiet_row\<lparr>r_close := Some 102, r_high := Some (1025 / 10),
     r_low := Some 101, r_volume := Some 20, r_RSI := Some 60\<rparr>"

definition breakdown_row :: row where
  "breakdown_row = quiet_row\<lparr>r_close := Some 98, r_high := Some 99,
     r_low := Some (975 / 10), r_volume := Some 20, r_RSI := Some 40,
     HTF_EMA20 := Some 1, HTF_EMA50 := Some 2, HTF_EMA200 := Some 3\<rparr>"

definition breakout_frame :: "row list" where
  "breakout_frame = replicate 99 quiet_row @ [breakout_row]"

definition breakdown_frame :: "row list" where
  "breakdown_frame = replicate 99 quiet_row @ [breakdown_row]"

definition quiet_frame :: "row list" where
  "quiet_frame = replicate 99 quiet_row @ [quiet_row]"

text \<open>
  The breakout frame with a weak trend: the high-timeframe ADX of the last row is 10,
  below \<^verbatim>\<open>BREAKOUT_ADX_MIN\<close>.
\<close>

definition weak_trend_row :: row where
  "weak_trend_row = breakout_row\<lparr>HTF_ADX := Some 10\<rparr>"

definition weak_trend_frame :: "row list" where
  "weak_trend_frame = replicate 99 quiet_row @ [weak_trend_row]"

section \<open>Helper lemmas\<close>







subsection \<open>Exit management\<close>

lemma ratchet_fields [simp]:
  "side (ratchet_trailing cfg p price atr) = side p"
  "tp1 (ratchet_trailing cfg p price atr) = tp1 p"
  "qty (ratchet_trailing cfg p price atr) = qty p"
  "entry_price (ratchet_trailing cfg p price atr) = entry_price p"
  "open_time (ratchet_trailing cfg p price atr) = open_time p"
  "stop_loss (ratchet_trailing cfg p price atr) = stop_loss p"
  by (simp_all add: ratchet_trailing_def Let_def split: option.splits)

lemma ratchet_none [simp]:
  "trailing_stop p = None \<Longrightarrow> ratchet_trailing cfg p price atr = p"
  by (simp add: ratchet_trailing_def)

lemma ts_le_refl [simp]: "ts_le p p"
  by (simp add: ts_le_def)

lemma ts_le_trans: "ts_le p q \<Longrightarrow> ts_le q r \<Longrightarrow> ts_le p r"
  by (fastforce simp: ts_le_def split: if_splits)

lemma ts_le_ratchet [simp]: "ts_le p (ratchet_trailing cfg p price atr)"
  by (auto simp: ts_le_def ratchet_trailing_def Let_def split: option.splits)

lemma reduce_fields [simp]:
  "side (reduce_qty p q) = side p"
  "tp1 (reduce_qty p q) = tp1 p"
  "trailing_stop (reduce_qty p q) = trailing_stop p"
  "entry_price (reduce_qty p q) = entry_price p"
  "open_time (reduce_qty p q) = open_time p"
  "stop_loss (reduce_qty p q) = stop_loss p"
  by (simp_all add: reduce_qty_def Let_def)

lemma ts_le_reduce [simp]: "ts_le p (reduce_qty p q)"
  by (simp add: ts_le_def)

lemma after_tp1_fields [simp]:
  "side (after_tp1 cfg p price atr) = side p"
  "tp1 (after_tp1 cfg p price atr) = None"
  "qty (after_tp1 cfg p price atr) = qty p"
  "entry_price (after_tp1 cfg p price atr) = entry_price p"
  "open_time (after_tp1 cfg p price atr) = open_time p"
  "stop_loss (after_tp1 cfg p price atr) = Some (entry_price p)"
  by (simp_all add: after_tp1_def Let_def split: option.splits)

lemma after_tp1_trailing: "trailing_stop (after_tp1 cfg p price atr) \<noteq> None"
  by (simp add: after_tp1_def Let_def split: option.splits)

lemma ts_le_after_tp1 [simp]: "ts_le p (after_tp1 cfg p price atr)"
  by (auto simp: ts_le_def after_tp1_def Let_def split: option.splits)

lemma close_fraction_snd:
  "snd (close_fraction f bal p price fr) = p \<or>
   snd (close_fraction f bal p price fr) = reduce_qty p (qty p * fr)"
  by (simp add: close_fraction_def Let_def)

lemma tp1_crossed_None [simp]: "tp1 p = None \<Longrightarrow> \<not> tp1_crossed p price"
  by (simp add: tp1_crossed_def)

lemma bt_tp1_stage_None [simp]:
  "tp1 p = None \<Longrightarrow> bt_tp1_stage cfg bal p price atr = (bal, p)"
  by (simp add: bt_tp1_stage_def)

lemma bt_tp1_stage_ts_le: "ts_le p (snd (bt_tp1_stage cfg bal p price atr))"
  using close_fraction_snd[of "FUTURES_FEE_RATE cfg" bal p price "1/2"]
  by (auto simp: bt_tp1_stage_def split: prod.splits intro: ts_le_trans[OF ts_le_reduce ts_le_after_tp1])

lemma bt_tp1_stage_fired:
  "tp1_crossed p price \<Longrightarrow> tp1 (snd (bt_tp1_stage cfg bal p price atr)) = None"
  by (simp add: bt_tp1_stage_def split: prod.splits)

lemma bt_tp1_stage_tp1_None:
  "tp1 p = None \<Longrightarrow> tp1 (snd (bt_tp1_stage cfg bal p price atr)) = None"
  by simp

lemma bt_manage_Some:
  assumes "bt_manage cfg i (Some sn) bal p = (bal', Some p')" and "0 < snap_atr sn"
  shows "p' = ratchet_trailing cfg (snd (bt_tp1_stage cfg bal p (snap_price sn) (snap_atr sn)))
                (snap_price sn) (snap_atr sn)
         \<and> \<not> stop_loss_hit p (snap_price sn)"
  using assms
  by (auto simp: bt_manage_def Let_def split: if_splits prod.splits)

lemma bt_manage_idle:
  "snap = None \<or> (\<exists>sn. snap = Some sn \<and> snap_atr sn \<le> 0) \<Longrightarrow> bt_manage cfg i snap bal p = (bal, Some p)"
  by (auto simp: bt_manage_def Let_def)

lemma bt_manage_ts_le:
  assumes "bt_manage cfg i snap bal p = (bal', Some p')"
  shows "ts_le p p'"
proof (cases "snap = None \<or> (\<exists>sn. snap = Some sn \<and> snap_atr sn \<le> 0)")
  case True
  from bt_manage_idle[OF True, of cfg i bal p] assms show ?thesis by simp
next
  case False
  then obtain sn where sn: "snap = Some sn" "0 < snap_atr sn" by (cases snap) auto
  from bt_manage_Some[OF assms[unfolded sn(1)] sn(2)]
  show ?thesis
    by (auto intro: ts_le_trans[OF bt_tp1_stage_ts_le ts_le_ratchet])
qed

lemma positions_update_state [simp]:
  "positions (update_position_state s k (Some p)) = AList.update k p (positions s)"
  "positions (update_position_state s k None) = AList.delete k (positions s)"
  "positions (mutate_in_place s k p) = AList.update k p (positions s)"
  by (simp_all add: update_position_state_def mutate_in_place_def)

lemma flag_update_state [simp]:
  "trading_disabled (update_position_state s k slot) = trading_disabled s"
  "trading_disabled (mutate_in_place s k p) = trading_disabled s"
  by (simp_all add: update_position_state_def mutate_in_place_def split: option.splits)

lemma close_position_live_positions:
  "positions (close_position_live brk s k p price r) = positions s
   \<or> positions (close_position_live brk s k p price r) = AList.delete k (positions s)"
  by (simp add: close_position_live_def create_market_order_def Let_def
      split: option.splits)

lemma close_position_live_map:
  "map_of (positions (close_position_live brk s k p price r)) k' =
     (if k' = k then map_of (positions (close_position_live brk s k p price r)) k
      else map_of (positions s) k')"
  using close_position_live_positions[of brk s k p price r]
  by (auto simp: delete_conv)

lemma close_position_live_slot:
  "map_of (positions (close_position_live brk s k p price r)) k = None
   \<or> map_of (positions (close_position_live brk s k p price r)) k = map_of (positions s) k"
  using close_position_live_positions[of brk s k p price r]
  by (auto simp: delete_conv)

lemma close_fraction_live_cases:
  "close_fraction_live brk s k p price fr r = (s1, p1) \<Longrightarrow>
     (positions s1 = positions s \<and> p1 = p)
     \<or> (positions s1 = AList.update k p1 (positions s) \<and> p1 = reduce_qty p (qty p * fr))"
  by (auto simp: close_fraction_live_def create_market_order_def Let_def
      split: option.splits if_splits)

lemma live_tp1_stage_cases:
  assumes "live_tp1_stage cfg brk s k p price atr = (s1, p1)"
    and "map_of (positions s) k = Some p"
  shows "map_of (positions s1) k = Some p1"
    and "k' \<noteq> k \<Longrightarrow> map_of (positions s1) k' = map_of (positions s) k'"
    and "if tp1_crossed p price \<and> qty p > 0
         then p1 = after_tp1 cfg p price atr
              \<or> p1 = after_tp1 cfg (reduce_qty p (qty p * (1 / 2))) price atr
         else p1 = p"
proof -
  show "map_of (positions s1) k = Some p1"
    using assms
    by (auto simp: live_tp1_stage_def Let_def update_conv split: if_splits prod.splits)
  show "k' \<noteq> k \<Longrightarrow> map_of (positions s1) k' = map_of (positions s) k'"
    using assms
    by (auto simp: live_tp1_stage_def Let_def update_conv split: if_splits prod.splits
        dest!: close_fraction_live_cases)
  show "if tp1_crossed p price \<and> qty p > 0
         then p1 = after_tp1 cfg p price atr
              \<or> p1 = after_tp1 cfg (reduce_qty p (qty p * (1 / 2))) price atr
         else p1 = p"
    using assms
    by (auto simp: live_tp1_stage_def Let_def split: if_splits prod.splits
        dest!: close_fraction_live_cases)
qed

lemma live_manage_frame:
  assumes "map_of (positions s) (t_symbol tk) = Some p" and "k' \<noteq> t_symbol tk"
  shows "map_of (positions (live_manage cfg brk tk s p)) k' = map_of (positions s) k'"
proof -
  obtain s1 p1 where st: "live_tp1_stage cfg brk s (t_symbol tk) p (t_price tk) (t_atr tk) = (s1, p1)"
    by (cases "live_tp1_stage cfg brk s (t_symbol tk) p (t_price tk) (t_atr tk)")
  note fr = live_tp1_stage_cases(2)[OF st assms(1) assms(2)]
  show ?thesis
    using assms(2) fr
    by (simp add: live_manage_def live_exit_tail_def trailing_active_def Let_def st close_position_live_map update_conv)
qed

lemma live_manage_slot:
  assumes "map_of (positions s) (t_symbol tk) = Some p"
    and "map_of (positions (live_manage cfg brk tk s p)) (t_symbol tk) = Some p'"
  shows "if tp1_crossed p (t_price tk) \<and> qty p > 0 \<and> \<not> stop_loss_hit p (t_price tk)
         then (\<exists>p1. (p1 = after_tp1 cfg p (t_price tk) (t_atr tk)
                    \<or> p1 = after_tp1 cfg (reduce_qty p (qty p * (1 / 2))) (t_price tk) (t_atr tk))
                  \<and> (p' = p1 \<or> p' = ratchet_trailing cfg p1 (t_price tk) (t_atr tk)))
         else (p' = p \<or> p' = ratchet_trailing cfg p (t_price tk) (t_atr tk))"
proof -
  obtain s1 p1 where st: "live_tp1_stage cfg brk s (t_symbol tk) p (t_price tk) (t_atr tk) = (s1, p1)"
    by (cases "live_tp1_stage cfg brk s (t_symbol tk) p (t_price tk) (t_atr tk)")
  note a = live_tp1_stage_cases(1)[OF st assms(1)]
  note c = live_tp1_stage_cases(3)[OF st assms(1)]
  show ?thesis
  proof (cases "stop_loss_hit p (t_price tk)")
    case True
    with assms close_position_live_slot[of brk s "t_symbol tk" p "t_price tk" "''stop_loss''"]
    show ?thesis by (auto simp: live_manage_def live_exit_tail_def trailing_active_def Let_def)
  next
    case False
    have "p' = p1 \<or> p' = ratchet_trailing cfg p1 (t_price tk) (t_atr tk)"
      using assms(2) False a
        close_position_live_slot[of brk "mutate_in_place s1 (t_symbol tk) (ratchet_trailing cfg p1 (t_price tk) (t_atr tk))" "t_symbol tk" "ratchet_trailing cfg p1 (t_price tk) (t_atr tk)" "t_price tk" "''trailing_stop''"]
        close_position_live_slot[of brk "update_position_state s1 (t_symbol tk) (Some (ratchet_trailing cfg p1 (t_price tk) (t_atr tk)))" "t_symbol tk" "ratchet_trailing cfg p1 (t_price tk) (t_atr tk)" "t_price tk" "''time_stop''"]
        close_position_live_slot[of brk "update_position_state s1 (t_symbol tk) (Some (ratchet_trailing cfg p1 (t_price tk) (t_atr tk)))" "t_symbol tk" "ratchet_trailing cfg p1 (t_price tk) (t_atr tk)" "t_price tk" "''reverse_signal''"]
        close_position_live_slot[of brk s1 "t_symbol tk" p1 "t_price tk" "''time_stop''"]
        close_position_live_slot[of brk s1 "t_symbol tk" p1 "t_price tk" "''reverse_signal''"]
      by (auto simp: live_manage_def live_exit_tail_def trailing_active_def Let_def st update_conv split: if_splits)
    with c False show ?thesis by (auto split: if_splits)
  qed
qed

lemma positions_guard [simp]:
  "positions (drawdown_guard cfg s eq) = positions s"
  "positions (update_equity_peak s eq) = positions s"
  "positions (heartbeat_mismatch cfg exch s) = positions s"
  by (simp_all add: drawdown_guard_def update_equity_peak_def heartbeat_mismatch_def Let_def
      split: option.splits)

lemma live_place_entry_positions:
  "positions (live_place_entry cfg brk tk s side0 n q) = positions s
   \<or> (\<exists>p. positions (live_place_entry cfg brk tk s side0 n q)
              = AList.update (t_symbol tk) p (positions s))"
  by (auto simp: live_place_entry_def create_market_order_def Let_def split: option.splits)

lemma positions_prune [simp]: "positions (prune_timestamps cfg now s) = positions s"
  by (simp add: prune_timestamps_def)

lemma live_try_open_positions:
  "positions (live_try_open cfg rm brk tk eq s) = positions s
   \<or> (\<exists>p. positions (live_try_open cfg rm brk tk eq s)
              = AList.update (t_symbol tk) p (positions s))"
proof -
  have "\<And>side0 n q.
      positions (live_place_entry cfg brk tk (prune_timestamps cfg (t_now tk) s) side0 n q)
        = positions s
      \<or> (\<exists>p. positions (live_place_entry cfg brk tk (prune_timestamps cfg (t_now tk) s) side0 n q)
                = AList.update (t_symbol tk) p (positions s))"
    using live_place_entry_positions[of cfg brk tk "prune_timestamps cfg (t_now tk) s"]
    by simp
  then show ?thesis
    by (simp add: live_try_open_def Let_def split: prod.splits)
qed

lemma live_try_open_frame:
  assumes "k' \<noteq> t_symbol tk"
  shows "map_of (positions (live_try_open cfg rm brk tk eq s)) k' = map_of (positions s) k'"
  using assms live_try_open_positions[of cfg rm brk tk eq s]
  by (auto simp: update_conv)

lemma positions_guard_stage [simp]: "positions (guard_stage cfg brk tk s) = positions s"
  by (simp add: guard_stage_def Let_def)

lemma tick_unfold:
  "0 < t_price tk \<Longrightarrow> 0 < t_atr tk \<Longrightarrow>
   run_strategy_if_ready cfg rm brk tk s =
     (case map_of (positions s) (t_symbol tk) of
        Some pos \<Rightarrow> live_manage cfg brk tk (guard_stage cfg brk tk s) pos
      | None \<Rightarrow> live_try_open cfg rm brk tk (tick_equity brk tk) (guard_stage cfg brk tk s))"
  by (simp add: run_strategy_if_ready_def Let_def)

lemma tick_idle:
  "t_price tk \<le> 0 \<or> t_atr tk \<le> 0 \<Longrightarrow> run_strategy_if_ready cfg rm brk tk s = s"
  by (auto simp: run_strategy_if_ready_def)

lemma tick_slot:
  assumes "map_of (positions s) k = Some p"
    and "map_of (positions (run_strategy_if_ready cfg rm brk tk s)) k = Some p'"
  shows "if t_symbol tk = k \<and> 0 < t_price tk \<and> 0 < t_atr tk then slot_rel cfg tk p p' else p' = p"
proof (cases "t_price tk \<le> 0 \<or> t_atr tk \<le> 0")
  case True
  with assms tick_idle[OF True, of cfg rm brk s] show ?thesis by auto
next
  case False
  then have pos: "0 < t_price tk" "0 < t_atr tk" by auto
  note run = tick_unfold[OF pos, of cfg rm brk s]
  show ?thesis
  proof (cases "map_of (positions s) (t_symbol tk)")
    case None
    then have ne: "k \<noteq> t_symbol tk" using assms(1) by auto
    with assms None run show ?thesis
      by (simp add: live_try_open_frame)
  next
    case (Some q)
    show ?thesis
    proof (cases "k = t_symbol tk")
      case True
      with Some assms(1) have "q = p" by simp
      with live_manage_slot[of "guard_stage cfg brk tk s" tk p cfg brk p'] Some assms(2) run True pos
      show ?thesis by (simp add: slot_rel_def)
    next
      case False
      with live_manage_frame[of "guard_stage cfg brk tk s" tk q k cfg brk] Some run assms
      show ?thesis by simp
    qed
  qed
qed

lemma event_slot:
  assumes "map_of (positions s) k = Some p"
    and "map_of (positions (live_event cfg rm brk e s)) k = Some p'"
  shows "case e of
           Candle tk \<Rightarrow> (if t_symbol tk = k \<and> 0 < t_price tk \<and> 0 < t_atr tk
                          then slot_rel cfg tk p p' else p' = p)
         | Heartbeat exch \<Rightarrow> p' = p"
  using assms tick_slot[of s k p cfg rm brk _ p']
  by (cases e) auto

lemma slot_rel_ts_le: "slot_rel cfg tk p p' \<Longrightarrow> ts_le p p'"
  by (auto simp: slot_rel_def split: if_splits
      intro: ts_le_trans[OF ts_le_after_tp1 ts_le_ratchet]
             ts_le_trans[OF ts_le_reduce ts_le_after_tp1]
             ts_le_trans[OF ts_le_trans[OF ts_le_reduce ts_le_after_tp1] ts_le_ratchet])

lemma slot_rel_tp1_None: "slot_rel cfg tk p p' \<Longrightarrow> tp1 p = None \<Longrightarrow> tp1 p' = None"
  by (auto simp: slot_rel_def split: if_splits)

lemma slot_rel_fired:
  "slot_rel cfg tk p p' \<Longrightarrow> tp1_crossed p (t_price tk) \<Longrightarrow> qty p > 0
     \<Longrightarrow> \<not> stop_loss_hit p (t_price tk) \<Longrightarrow> tp1 p' = None"
  by (auto simp: slot_rel_def)

lemma event_ts_le:
  assumes "map_of (positions s) k = Some p"
    and "map_of (positions (live_event cfg rm brk e s)) k = Some p'"
  shows "ts_le p p'"
  using event_slot[OF assms] by (auto split: event.splits if_splits dest: slot_rel_ts_le)

lemma bt_manage_tp1_None:
  assumes "bt_manage cfg i snap bal p = (bal', Some p')" and "tp1 p = None \<or> bt_tp1_fires snap p"
  shows "tp1 p' = None"
proof (cases "snap = None \<or> (\<exists>sn. snap = Some sn \<and> snap_atr sn \<le> 0)")
  case True
  from bt_manage_idle[OF True, of cfg i bal p] assms True show ?thesis
    by (auto simp: bt_tp1_fires_def)
next
  case False
  then obtain sn where sn: "snap = Some sn" "0 < snap_atr sn" by (cases snap) auto
  from bt_manage_Some[OF assms(1)[unfolded sn(1)] sn(2)] assms(2) sn
  show ?thesis
    by (auto simp: bt_tp1_fires_def bt_tp1_stage_fired)
qed

lemma bt_tp1_count_zero:
  "tp1 p = None \<Longrightarrow> bt_tp1_count cfg i snaps bal p = 0"
proof (induction snaps arbitrary: i bal p)
  case Nil
  then show ?case by simp
next
  case (Cons snap snaps)
  have nf: "\<not> bt_tp1_fires snap p"
    using Cons.prems by (simp add: bt_tp1_fires_def split: option.splits)
  show ?case
  proof (cases "bt_manage cfg i snap bal p")
    case (Pair bal' slot)
    show ?thesis
    proof (cases slot)
      case None
      with Pair nf show ?thesis by simp
    next
      case (Some p')
      with Pair Cons.prems have "tp1 p' = None"
        by (auto dest: bt_manage_tp1_None)
      with Cons.IH[of p' "i + 1" bal'] Pair Some nf show ?thesis by simp
    qed
  qed
qed

lemma bt_tp1_count_le: "bt_tp1_count cfg i snaps bal p \<le> 1"
proof (induction snaps arbitrary: i bal p)
  case Nil
  then show ?case by simp
next
  case (Cons snap snaps)
  show ?case
  proof (cases "bt_manage cfg i snap bal p")
    case (Pair bal' slot)
    show ?thesis
    proof (cases slot)
      case None
      with Pair show ?thesis by simp
    next
      case (Some p')
      show ?thesis
      proof (cases "bt_tp1_fires snap p")
        case True
        with Pair Some have "tp1 p' = None" by (auto dest: bt_manage_tp1_None)
        then have "bt_tp1_count cfg (i + 1) snaps bal' p' = 0" by (rule bt_tp1_count_zero)
        with Pair Some True show ?thesis by simp
      next
        case False
        with Cons.IH[of "i + 1" bal' p'] Pair Some show ?thesis by simp
      qed
    qed
  qed
qed

lemma event_tp1_None:
  assumes "map_of (positions s) k = Some p"
    and "map_of (positions (live_event cfg rm brk e s)) k = Some p'"
    and "tp1 p = None \<or> live_tp1_fires k e p"
  shows "tp1 p' = None"
  using event_slot[OF assms(1,2)] assms(3)
  by (auto simp: live_tp1_fires_def split: event.splits if_splits
      dest: slot_rel_tp1_None slot_rel_fired)

lemma live_tp1_count_zero:
  "map_of (positions s) k = Some p \<Longrightarrow> tp1 p = None \<Longrightarrow> live_tp1_count cfg rm brk k es s = 0"
proof (induction es arbitrary: s p)
  case Nil
  then show ?case by simp
next
  case (Cons e es)
  have nf: "\<not> live_tp1_fires k e p"
    using Cons.prems by (simp add: live_tp1_fires_def split: event.splits)
  show ?case
  proof (cases "map_of (positions (live_event cfg rm brk e s)) k")
    case None
    then have "live_tp1_count cfg rm brk k es (live_event cfg rm brk e s) = 0"
      by (cases es) simp_all
    with Cons.prems nf show ?thesis by simp
  next
    case (Some p')
    with Cons.prems have "tp1 p' = None" by (auto dest: event_tp1_None)
    from Cons.IH[OF Some this] Cons.prems nf show ?thesis by simp
  qed
qed

lemma live_tp1_count_le: "live_tp1_count cfg rm brk k es s \<le> 1"
proof (induction es arbitrary: s)
  case Nil
  then show ?case by simp
next
  case (Cons e es)
  show ?case
  proof (cases "map_of (positions s) k")
    case None
    then show ?thesis by simp
  next
    case (Some p)
    show ?thesis
    proof (cases "live_tp1_fires k e p")
      case True
      have "live_tp1_count cfg rm brk k es (live_event cfg rm brk e s) = 0"
      proof (cases "map_of (positions (live_event cfg rm brk e s)) k")
        case None
        then show ?thesis by (cases es) simp_all
      next
        case (Some p')
        with \<open>map_of (positions s) k = Some p\<close> True have "tp1 p' = None"
          by (auto dest: event_tp1_None)
        from live_tp1_count_zero[OF Some this] show ?thesis .
      qed
      with Some True show ?thesis by simp
    next
      case False
      with Cons.IH[of "live_event cfg rm brk e s"] Some show ?thesis by simp
    qed
  qed
qed

lemma flag_close_position_live [simp]:
  "trading_disabled (close_position_live brk s k p price r) = trading_disabled s"
  by (simp add: close_position_live_def create_market_order_def Let_def split: option.splits)

lemma flag_close_fraction_live [simp]:
  "trading_disabled (fst (close_fraction_live brk s k p price fr r)) = trading_disabled s"
  by (simp add: close_fraction_live_def create_market_order_def Let_def split: option.splits)

lemma flag_live_tp1_stage [simp]:
  "trading_disabled (fst (live_tp1_stage cfg brk s k p price atr)) = trading_disabled s"
proof (cases "close_fraction_live brk s k p price (1 / 2) ''tp1''")
  case (Pair s1 p1)
  with flag_close_fraction_live[of brk s k p price "1 / 2" "''tp1''"] show ?thesis
    by (simp add: live_tp1_stage_def Let_def)
qed

lemma flag_live_manage [simp]:
  "trading_disabled (live_manage cfg brk tk s p) = trading_disabled s"
proof (cases "live_tp1_stage cfg brk s (t_symbol tk) p (t_price tk) (t_atr tk)")
  case (Pair s1 p1)
  with flag_live_tp1_stage[of cfg brk s "t_symbol tk" p "t_price tk" "t_atr tk"] show ?thesis
    by (simp add: live_manage_def live_exit_tail_def trailing_active_def Let_def)
qed

lemma live_try_open_disabled [simp]:
  "trading_disabled s \<Longrightarrow> live_try_open cfg rm brk tk eq s = s"
  by (simp add: live_try_open_def Let_def)

lemma flag_guard_mono:
  "trading_disabled s \<Longrightarrow> trading_disabled (drawdown_guard cfg s eq)"
  "trading_disabled (update_equity_peak s eq) = trading_disabled s"
  "trading_disabled s \<Longrightarrow> trading_disabled (heartbeat_mismatch cfg exch s)"
  by (simp_all add: drawdown_guard_def update_equity_peak_def heartbeat_mismatch_def Let_def
      split: option.splits)

lemma guard_stage_sticky:
  "trading_disabled s \<Longrightarrow> trading_disabled (guard_stage cfg brk tk s)"
  by (simp add: guard_stage_def Let_def flag_guard_mono)

lemma tick_sticky:
  assumes "trading_disabled s"
  shows "trading_disabled (run_strategy_if_ready cfg rm brk tk s)"
proof (cases "t_price tk \<le> 0 \<or> t_atr tk \<le> 0")
  case True
  with assms tick_idle[OF True, of cfg rm brk s] show ?thesis by simp
next
  case False
  then have pos: "0 < t_price tk" "0 < t_atr tk" by auto
  show ?thesis
    using guard_stage_sticky[OF assms, of cfg brk tk]
    by (simp add: tick_unfold[OF pos] split: option.splits)
qed

lemma event_sticky:
  "trading_disabled s \<Longrightarrow> trading_disabled (live_event cfg rm brk e s)"
  by (cases e) (simp_all add: tick_sticky flag_guard_mono(3))

lemma run_sticky:
  "trading_disabled s \<Longrightarrow> trading_disabled (live_run cfg rm brk es s)"
  by (induction es arbitrary: s) (simp_all add: event_sticky)

lemma live_manage_dom:
  assumes "map_of (positions s) (t_symbol tk) = Some p"
  shows "dom (map_of (positions (live_manage cfg brk tk s p))) \<subseteq> dom (map_of (positions s))"
proof
  fix k assume k: "k \<in> dom (map_of (positions (live_manage cfg brk tk s p)))"
  show "k \<in> dom (map_of (positions s))"
  proof (cases "k = t_symbol tk")
    case True
    with assms show ?thesis by auto
  next
    case False
    from live_manage_frame[OF assms False, of cfg brk] k show ?thesis
      by (simp add: dom_def)
  qed
qed

lemma tick_dom_disabled:
  assumes "trading_disabled s"
  shows "dom (map_of (positions (run_strategy_if_ready cfg rm brk tk s))) \<subseteq> dom (map_of (positions s))"
proof (cases "t_price tk \<le> 0 \<or> t_atr tk \<le> 0")
  case True
  with tick_idle[OF True, of cfg rm brk s] show ?thesis by simp
next
  case False
  then have pos: "0 < t_price tk" "0 < t_atr tk" by auto
  note d = guard_stage_sticky[OF assms, of cfg brk tk]
  show ?thesis
  proof (cases "map_of (positions s) (t_symbol tk)")
    case None
    with d show ?thesis
      by (simp add: tick_unfold[OF pos])
  next
    case (Some q)
    with live_manage_dom[of "guard_stage cfg brk tk s" tk q cfg brk] show ?thesis
      by (simp add: tick_unfold[OF pos])
  qed
qed

lemma run_dom_disabled:
  "trading_disabled s \<Longrightarrow>
     dom (map_of (positions (live_run cfg rm brk es s))) \<subseteq> dom (map_of (positions s))"
proof (induction es arbitrary: s)
  case Nil
  then show ?case by simp
next
  case (Cons e es)
  have d: "trading_disabled (live_event cfg rm brk e s)"
    using Cons.prems by (rule event_sticky)
  have "dom (map_of (positions (live_event cfg rm brk e s))) \<subseteq> dom (map_of (positions s))"
    using Cons.prems by (cases e) (simp_all add: tick_dom_disabled)
  with Cons.IH[OF d] show ?case by auto
qed

lemma guard_trips:
  assumes "0 < HARD_MAX_DRAWDOWN_PCT cfg" and "0 < eq" and "equity_peak s = Some pk" and "0 < pk"
    and "HARD_MAX_DRAWDOWN_PCT cfg \<le> (pk - eq) / pk * 100"
  shows "trading_disabled (drawdown_guard cfg (update_equity_peak s eq) eq)"
proof -
  have "0 < (pk - eq) / pk * 100" using assms by linarith
  then have "eq < pk" using assms(4) by (simp add: zero_less_divide_iff)
  then have u: "update_equity_peak s eq = s"
    using assms(3) by (simp add: update_equity_peak_def)
  show ?thesis
    using assms by (simp add: u drawdown_guard_def dd_pct_def)
qed

lemma tick_trips:
  assumes "0 < HARD_MAX_DRAWDOWN_PCT cfg" and "0 < t_price tk" and "0 < t_atr tk"
    and "t_balance tk = Some eq" and "0 < eq" and "equity_peak s = Some pk" and "0 < pk"
    and "HARD_MAX_DRAWDOWN_PCT cfg \<le> (pk - eq) / pk * 100"
  shows "trading_disabled (run_strategy_if_ready cfg rm (Some fills) tk s)"
proof -
  have e: "tick_equity (Some fills) tk = eq" using assms(4) by (simp add: tick_equity_def)
  from guard_trips[OF assms(1,5,6,7,8)]
  have d: "trading_disabled (guard_stage cfg (Some fills) tk s)"
    using assms(5) by (simp add: guard_stage_def Let_def e)
  show ?thesis
    using d by (simp add: tick_unfold[OF assms(2,3)] split: option.splits)
qed

subsection \<open>The ledger does not depend on the protective flag\<close>

lemma view_update:
  "ledger_view s = ledger_view s' \<Longrightarrow>
   ledger_view (update_position_state s k slot) = ledger_view (update_position_state s' k slot)"
  "ledger_view s = ledger_view s' \<Longrightarrow>
   ledger_view (mutate_in_place s k p) = ledger_view (mutate_in_place s' k p)"
  by (simp_all add: ledger_view_def update_position_state_def mutate_in_place_def split: option.splits)

lemma view_close_position_live:
  "ledger_view s = ledger_view s' \<Longrightarrow>
   ledger_view (close_position_live brk s k p price r) = ledger_view (close_position_live brk s' k p price r)"
  by (simp add: ledger_view_def close_position_live_def create_market_order_def
      update_position_state_def Let_def split: option.splits)

lemma view_close_fraction_live:
  "ledger_view s = ledger_view s' \<Longrightarrow>
   ledger_view (fst (close_fraction_live brk s k p price fr r))
     = ledger_view (fst (close_fraction_live brk s' k p price fr r))
   \<and> snd (close_fraction_live brk s k p price fr r) = snd (close_fraction_live brk s' k p price fr r)"
  by (simp add: ledger_view_def close_fraction_live_def create_market_order_def
      update_position_state_def Let_def split: option.splits)


lemma view_live_tp1_stage:
  assumes "ledger_view s = ledger_view s'"
  shows "ledger_view (fst (live_tp1_stage cfg brk s k p price atr))
           = ledger_view (fst (live_tp1_stage cfg brk s' k p price atr))
         \<and> snd (live_tp1_stage cfg brk s k p price atr) = snd (live_tp1_stage cfg brk s' k p price atr)"
proof (cases "tp1_crossed p price \<and> qty p > 0")
  case False
  then have "live_tp1_stage cfg brk x k p price atr = (x, p)" for x
    unfolding live_tp1_stage_def by (rule if_not_P)
  with assms show ?thesis by simp
next
  case True
  obtain s1 p1 where a: "close_fraction_live brk s k p price (1 / 2) ''tp1'' = (s1, p1)"
    by (cases "close_fraction_live brk s k p price (1 / 2) ''tp1''")
  obtain s1' p1' where b: "close_fraction_live brk s' k p price (1 / 2) ''tp1'' = (s1', p1')"
    by (cases "close_fraction_live brk s' k p price (1 / 2) ''tp1''")
  from view_close_fraction_live[OF assms, of brk k p price "1 / 2" "''tp1''"] a b
  have v: "ledger_view s1 = ledger_view s1'" and pp: "p1' = p1" by simp_all
  have l: "live_tp1_stage cfg brk s k p price atr
           = (update_position_state s1 k (Some (after_tp1 cfg p1 price atr)), after_tp1 cfg p1 price atr)"
    using True a by (simp add: live_tp1_stage_def Let_def)
  have r: "live_tp1_stage cfg brk s' k p price atr
           = (update_position_state s1' k (Some (after_tp1 cfg p1 price atr)), after_tp1 cfg p1 price atr)"
    using True b pp by (simp add: live_tp1_stage_def Let_def)
  show ?thesis
    unfolding l r using view_update(1)[OF v] by simp
qed

lemma view_live_exit_tail:
  assumes v: "ledger_view s1 = ledger_view s1'"
  shows "ledger_view (live_exit_tail cfg brk tk s1 p1) = ledger_view (live_exit_tail cfg brk tk s1' p1)"
proof (cases "trailing_active p1")
  case True
  then show ?thesis
    by (simp add: live_exit_tail_def Let_def
        view_close_position_live[OF view_update(2)[OF v]]
        view_close_position_live[OF view_update(1)[OF v]]
        view_update(1)[OF v])
next
  case False
  then show ?thesis
    by (simp add: live_exit_tail_def Let_def view_close_position_live[OF v] v)
qed

lemma view_live_manage:
  assumes "ledger_view s = ledger_view s'"
  shows "ledger_view (live_manage cfg brk tk s p) = ledger_view (live_manage cfg brk tk s' p)"
proof -
  obtain s1 p1 where a: "live_tp1_stage cfg brk s (t_symbol tk) p (t_price tk) (t_atr tk) = (s1, p1)"
    by (cases "live_tp1_stage cfg brk s (t_symbol tk) p (t_price tk) (t_atr tk)")
  obtain s1' p1' where b: "live_tp1_stage cfg brk s' (t_symbol tk) p (t_price tk) (t_atr tk) = (s1', p1')"
    by (cases "live_tp1_stage cfg brk s' (t_symbol tk) p (t_price tk) (t_atr tk)")
  from view_live_tp1_stage[OF assms, of cfg brk "t_symbol tk" p "t_price tk" "t_atr tk"] a b
  have v: "ledger_view s1 = ledger_view s1'" and pp: "p1' = p1" by simp_all
  show ?thesis
    by (simp add: live_manage_def a b pp view_close_position_live[OF assms]
        view_live_exit_tail[OF v])
qed

lemma view_guard_stage [simp]: "ledger_view (guard_stage cfg brk tk s) = ledger_view s"
  by (simp add: ledger_view_def guard_stage_def drawdown_guard_def update_equity_peak_def Let_def
      split: option.splits)

lemma exits_ignore_flag:
  assumes "map_of (positions s) (t_symbol tk) = Some p"
  shows "ledger_view (run_strategy_if_ready cfg rm brk tk (s\<lparr>trading_disabled := True\<rparr>))
         = ledger_view (run_strategy_if_ready cfg rm brk tk s)"
proof (cases "t_price tk \<le> 0 \<or> t_atr tk \<le> 0")
  case True
  then show ?thesis by (simp add: tick_idle ledger_view_def)
next
  case False
  then have pos: "0 < t_price tk" "0 < t_atr tk" by auto
  have "ledger_view (s\<lparr>trading_disabled := True\<rparr>) = ledger_view s"
    by (simp add: ledger_view_def)
  then have "ledger_view (guard_stage cfg brk tk (s\<lparr>trading_disabled := True\<rparr>))
        = ledger_view (guard_stage cfg brk tk s)"
    by simp
  from view_live_manage[OF this, of cfg brk tk p] assms show ?thesis
    by (simp add: tick_unfold[OF pos])
qed

section \<open>Claims about the position record and the sizer\<close>

text \<open>
  Claim C10. Serialising a position with \<^verbatim>\<open>to_dict\<close> and rebuilding it with
  \<^verbatim>\<open>from_dict\<close> gives back the same position, field for field, including the
  nullable fields \<^verbatim>\<open>stop_loss\<close>, \<^verbatim>\<open>tp1\<close>, \<^verbatim>\<open>tp2\<close>, \<^verbatim>\<open>peak_price\<close> and
  \<^verbatim>\<open>trailing_stop\<close>. The typed record already says that \<^verbatim>\<open>entry_price\<close>,
  \<^verbatim>\<open>qty\<close> and \<^verbatim>\<open>notional\<close> are finite floats and \<^verbatim>\<open>pyramid_level\<close> an int.
\<close>

theorem from_dict_to_dict: "from_dict now (to_dict p) = Inr p"
  by (cases p)
     (simp add: from_dict_def to_dict_def bind_err_def dict_item_def dict_get_def
        py_float_def py_int_def as_opt_float_def as_str_def opt_val_def
        split: option.splits)




section \<open>Evaluation of the drivers on concrete inputs\<close>

lemmas live_eval = run_strategy_if_ready_def guard_stage_def tick_equity_def drawdown_guard_def
  dd_pct_def update_equity_peak_def live_manage_def live_exit_tail_def live_tp1_stage_def
  trailing_active_def close_position_live_def close_fraction_live_def create_market_order_def
  update_position_state_def mutate_in_place_def stop_loss_hit_def tp1_crossed_def after_tp1_def
  reduce_qty_def ratchet_trailing_def trailing_hit_def live_time_stop_def age_bars_def
  py_trunc_def reverse_signal_def live_try_open_def Let_def

lemmas bt_eval = bt_manage_def bt_tp1_stage_def close_fraction_def close_position_def
  bt_time_stop_def bt_tp1_fires_def

lemmas sizing_eval = calc_futures_size_from_risk_def desired_notional_def calc_size_def
  futures_notional_by_leverage_def round_down_def default_risk_def

lemma tight_mtf_config_fields:
  "ATR_SL_MULT tight_mtf_config = 5" "ATR_TP_MULT_1 tight_mtf_config = 10"
  "RISK_PER_TRADE tight_mtf_config = 1 / 100" "FUTURES_LEVERAGE_DEFAULT tight_mtf_config = 5"
  "MAX_OPEN_POSITIONS tight_mtf_config = 3"
  by (simp_all add: tight_mtf_config_def shipped_config_def)

lemma tight_mtf_config_cap: "eff_max_positions tight_mtf_config = 1"
  by (simp add: tight_mtf_config_def eff_max_positions_def shipped_config_def
      is_mtf_strategy_def py_lower_def Let_def)

lemma scenario_A_size:
  "calc_futures_size_from_risk default_risk 5000 100 10 (1 / 100) 5 = (500, 5)"
  by (simp add: sizing_eval Let_def)

lemma bt_tp1_example:
  "bt_tp1_fires (bar 120) example_long"
  "bt_manage shipped_config 10 (bar 120) 5000 example_long
     = (5000 + 20 - 88 / 1000, Some halved_long)"
  by (simp_all add: bt_eval live_eval bar_def halved_long_def shipped_config_def
      example_long_def is_mtf_strategy_def py_lower_def)

lemma live_tp1_example:
  "live_tp1_fires ''BTCUSDT'' (Candle (candle 10 120 2 None (Some 1000))) example_long"
  "map_of (positions (live_event shipped_config default_risk (Some (\<lambda>n. True))
       (Candle (candle 10 120 2 None (Some 1000))) example_runner)) ''BTCUSDT''
   = Some halved_long"
  by (simp_all add: live_eval live_tp1_fires_def halved_long_def shipped_config_def
      example_long_def example_runner_def candle_def)

lemma bt_ratchet_example:
  "bt_manage shipped_config 10 (bar 125) 5000 trailing_long
   = (5000, Some (trailing_long\<lparr>trailing_stop := Some 115\<rparr>))"
  by (simp add: bt_eval live_eval bar_def shipped_config_def trailing_long_def example_long_def
      is_mtf_strategy_def py_lower_def)

lemma live_ratchet_example:
  "map_of (positions (live_event shipped_config default_risk (Some (\<lambda>n. True))
       (Candle (candle 10 125 2 None (Some 1000)))
       (example_runner\<lparr>positions := [(''BTCUSDT'', trailing_long)]\<rparr>))) ''BTCUSDT''
   = Some (trailing_long\<lparr>trailing_stop := Some 115\<rparr>)"
  by (simp add: live_eval shipped_config_def trailing_long_def example_long_def
      example_runner_def candle_def)

lemma guard_example:
  "run_strategy_if_ready guarded_config default_risk (Some (\<lambda>n. True))
     (candle 10 105 2 None (Some 895)) example_runner = tripped_runner"
  by (simp add: live_eval guarded_config_def shipped_config_def example_runner_def
      tripped_runner_def example_long_def candle_def)

text \<open>
  Without the flag the flat symbol is entered; with the flag set it is not, while a
  stop-loss hit of the held symbol is still closed.
\<close>

lemma entry_example:
  "map_of (positions (run_strategy_if_ready guarded_config default_risk (Some (\<lambda>n. True))
     eth_tick example_runner)) ''ETHUSDT'' \<noteq> None"
  "map_of (positions (run_strategy_if_ready guarded_config default_risk (Some (\<lambda>n. True))
     eth_tick tripped_runner)) ''ETHUSDT'' = None"
  by (simp_all add: live_eval guarded_config_def shipped_config_def example_runner_def
      tripped_runner_def example_long_def eth_tick_def prune_timestamps_def rate_limited_def
      anti_loop_def live_open_count_def eff_max_positions_def is_mtf_strategy_def py_lower_def
      live_place_entry_def new_position_def sizing_eval)

lemma exit_example:
  "map_of (positions (run_strategy_if_ready guarded_config default_risk (Some (\<lambda>n. True))
     (candle 12 89 2 None (Some 950)) tripped_runner)) ''BTCUSDT'' = None"
  by (simp add: live_eval guarded_config_def shipped_config_def example_runner_def
      tripped_runner_def example_long_def candle_def)

text \<open>
  A failed full close leaves the ledger as it was and sends the order-error alert;
  only the order log grows.
\<close>

lemma close_position_live_failure:
  assumes "\<not> fills (length (order_log s))" and "0 < qty pos"
  shows "close_position_live (Some fills) s k pos price reason
         = s\<lparr>order_log := order_log s @
                 [\<lparr>o_symbol = k, o_side = (if side pos = ''long'' then ''SELL'' else ''BUY''),
                   o_qty = qty pos, o_reduce_only = True\<rparr>],
               alerts := alerts s @ [OrderError k (side pos) (qty pos)]\<rparr>"
  using assms by (simp add: close_position_live_def create_market_order_def Let_def)

text \<open>
  A failed partial close returns the position unchanged and sends no alert.
\<close>

lemma close_fraction_live_failure:
  assumes "\<not> fills (length (order_log s))"
  shows "snd (close_fraction_live (Some fills) s k pos price fr reason) = pos"
    and "alerts (fst (close_fraction_live (Some fills) s k pos price fr reason)) = alerts s"
    and "positions (fst (close_fraction_live (Some fills) s k pos price fr reason)) = positions s"
  using assms by (simp_all add: close_fraction_live_def create_market_order_def Let_def)

text \<open>In the backtest the time-stop never closes under a strategy name other than the
  multi-timeframe one.\<close>

lemma bt_time_stop_needs_mtf: "\<not> is_mtf_strategy cfg \<Longrightarrow> \<not> bt_time_stop cfg i pos"
  by (simp add: bt_time_stop_def)

section \<open>Claims about the position lifecycle\<close>

text \<open>
  Claim C1, evaluated on the code. Settings: global cap 3, strategy-specific cap 1,
  strategy \<^verbatim>\<open>mtf_breakout\<close>, so the effective cap is 1. Two flat symbols both
  signal buy at bar 200 with equity 5000. The entry loop opens both: after the first
  open \<^verbatim>\<open>can_open_more\<close> is recomputed against the global cap (1 < 3), so the
  second symbol is entered and two positions are open under an effective cap of one.
\<close>

theorem bt_entry_loop_exceeds_effective_cap:
  "eff_max_positions tight_mtf_config = 1
   \<and> map_option (\<lambda>(balance, positions). bt_open_count positions [''AAAUSDT'', ''BBBUSDT''])
        (bt_step tight_mtf_config default_risk [''AAAUSDT'', ''BBBUSDT''] 200
           (\<lambda>symb. Some \<lparr>snap_price = 100, snap_atr = 2, snap_signal = Some ''buy''\<rparr>)
           (5000, \<lambda>symb. None))
     = Some 2"
  by (simp add: bt_step_def tight_mtf_config_cap tight_mtf_config_fields bt_open_count_def
      scenario_A_size Let_def)

text \<open>
  Claim C3, as the code has it. In the backtest ledger a full close of a position of
  positive quantity \<open>q\<close> changes the balance by exactly \<open>(X - E) * q\<close> for a long
  (\<open>(E - X) * q\<close> for any other side) minus \<open>(E * q + X * q) * f\<close>; a partial close
  by a fraction strictly between 0 and 1 does the same with the closed quantity
  \<open>q * fraction\<close> and leaves the position reduced by it. The live runner adds to its
  realized PnL, on a filled full close, the gross \<open>(X - E) * q * sign\<close>: it deducts no
  fee.
\<close>

theorem close_pnl_accounting:
  "(0 < qty pos \<longrightarrow>
      close_position f bal pos X - bal =
        (if side pos = ''long'' then (X - entry_price pos) * qty pos
         else (entry_price pos - X) * qty pos)
        - (entry_price pos * qty pos + X * qty pos) * f)
   \<and> (0 < qty pos \<and> 0 < fr \<and> fr < 1 \<longrightarrow>
      fst (close_fraction f bal pos X fr) - bal =
        (if side pos = ''long'' then (X - entry_price pos) * (qty pos * fr)
         else (entry_price pos - X) * (qty pos * fr))
        - (entry_price pos * (qty pos * fr) + X * (qty pos * fr)) * f
      \<and> snd (close_fraction f bal pos X fr) = reduce_qty pos (qty pos * fr))
   \<and> (0 < qty pos \<and> fills (length (order_log s)) \<longrightarrow>
      realized_pnl (close_position_live (Some fills) s k pos X r) - realized_pnl s =
        (X - entry_price pos) * qty pos * (if side pos = ''long'' then 1 else - 1))"
proof (intro conjI impI)
  assume "0 < qty pos"
  then show "close_position f bal pos X - bal =
        (if side pos = ''long'' then (X - entry_price pos) * qty pos
         else (entry_price pos - X) * qty pos)
        - (entry_price pos * qty pos + X * qty pos) * f"
    by (simp add: close_position_def Let_def)
next
  assume a: "0 < qty pos \<and> 0 < fr \<and> fr < 1"
  then show "fst (close_fraction f bal pos X fr) - bal =
        (if side pos = ''long'' then (X - entry_price pos) * (qty pos * fr)
         else (entry_price pos - X) * (qty pos * fr))
        - (entry_price pos * (qty pos * fr) + X * (qty pos * fr)) * f"
    by (simp add: close_fraction_def Let_def mult_le_0_iff)
  from a show "snd (close_fraction f bal pos X fr) = reduce_qty pos (qty pos * fr)"
    by (simp add: close_fraction_def Let_def mult_le_0_iff)
next
  assume "0 < qty pos \<and> fills (length (order_log s))"
  then show "realized_pnl (close_position_live (Some fills) s k pos X r) - realized_pnl s =
        (X - entry_price pos) * qty pos * (if side pos = ''long'' then 1 else - 1)"
    by (simp add: close_position_live_def create_market_order_def update_position_state_def
        Let_def)
qed

theorem close_pnl_accounting_witness:
  "close_position (4 / 10000) 5000 example_long 105 - 5000 = 10 - 164 / 1000
   \<and> fst (close_fraction (4 / 10000) 5000 example_long 120 (1 / 2)) - 5000 = 20 - 88 / 1000
   \<and> qty (snd (close_fraction (4 / 10000) 5000 example_long 120 (1 / 2))) = 1
   \<and> realized_pnl (close_position_live (Some (\<lambda>n. True)) example_runner ''BTCUSDT''
                     example_long 105 ''time_stop'') - realized_pnl example_runner = 10"
  using close_pnl_accounting[where pos = example_long and f = "4 / 10000" and bal = 5000
      and X = 105 and fr = "1 / 2" and fills = "\<lambda>n. True" and s = example_runner
      and k = "''BTCUSDT''" and r = "''time_stop''"]
    close_pnl_accounting[where pos = example_long and f = "4 / 10000" and bal = 5000
      and X = 120 and fr = "1 / 2" and fills = "\<lambda>n. True" and s = example_runner
      and k = "''BTCUSDT''" and r = "''time_stop''"]
  by (simp add: example_long_def example_runner_def reduce_qty_def Let_def)

text \<open>
  Claim C3 as stated fails for the live runner: closing the example position
  (entry 100, quantity 2) at 105 adds 10 to the realized PnL, not 10 minus the fee
  of both legs at the configured futures fee rate.
\<close>

theorem live_close_books_gross_pnl:
  "realized_pnl (close_position_live (Some (\<lambda>n. True)) example_runner ''BTCUSDT''
                   example_long 105 ''time_stop'') - realized_pnl example_runner
   \<noteq> (105 - entry_price example_long) * qty example_long
       - (entry_price example_long * qty example_long + 105 * qty example_long)
         * FUTURES_FEE_RATE shipped_config"
  by (simp add: close_position_live_def create_market_order_def update_position_state_def
      Let_def example_long_def example_runner_def shipped_config_def)

text \<open>
  Claim C4, evaluated on the code. The example position (quantity 2, stop 90, first
  target 120, no trailing stop) meets a candle closing at 120 with ATR 2 while every
  order fails. The partial close is attempted and fails; the quantity stays 2, but
  the stop-loss is moved to 100, the trailing stop is set to 110, the first target
  is cleared, the changed record is saved, and no alert is sent.
\<close>

theorem failed_partial_close_mutates_position:
  "run_strategy_if_ready shipped_config default_risk (Some (\<lambda>n. False))
     (candle 10 120 2 None (Some 1000)) example_runner
   = example_runner
      \<lparr>positions := [(''BTCUSDT'', trailing_long)],
       state_positions := [(''BTCUSDT'', trailing_long)],
       order_log := [\<lparr>o_symbol = ''BTCUSDT'', o_side = ''SELL'', o_qty = 1,
                       o_reduce_only = True\<rparr>]\<rparr>
   \<and> trailing_long \<noteq> example_long
   \<and> alerts example_runner = []"
  by (simp add: live_eval shipped_config_def example_runner_def trailing_long_def
      example_long_def candle_def)

text \<open>
  Claim C5. Over any sequence of bars (backtest) or events (live) the first-target
  step runs at most once in the life of a position. When it runs and the position
  stays open, \<^verbatim>\<open>tp1\<close> is null afterwards; a null \<^verbatim>\<open>tp1\<close> stays null; and with
  \<^verbatim>\<open>tp1\<close> null the step is a no-op whatever the price: no partial close, no
  breakeven move, no trailing-stop initialisation.
\<close>

theorem tp1_fires_at_most_once:
  "bt_tp1_count cfg i snaps bal p \<le> 1
   \<and> live_tp1_count cfg rm brk k es s \<le> 1
   \<and> (bt_tp1_fires snap p \<and> bt_manage cfg i snap bal p = (bal', Some p') \<longrightarrow> tp1 p' = None)
   \<and> (tp1 p = None \<and> bt_manage cfg i snap bal p = (bal', Some p') \<longrightarrow> tp1 p' = None)
   \<and> (live_tp1_fires k e q \<and> map_of (positions s) k = Some q
        \<and> map_of (positions (live_event cfg rm brk e s)) k = Some q' \<longrightarrow> tp1 q' = None)
   \<and> (tp1 q = None \<and> map_of (positions s) k = Some q
        \<and> map_of (positions (live_event cfg rm brk e s)) k = Some q' \<longrightarrow> tp1 q' = None)
   \<and> (tp1 p = None \<longrightarrow>
        bt_tp1_stage cfg bal p price atr = (bal, p)
        \<and> live_tp1_stage cfg brk s k p price atr = (s, p))"
proof (intro conjI impI)
  show "bt_tp1_count cfg i snaps bal p \<le> 1" by (rule bt_tp1_count_le)
  show "live_tp1_count cfg rm brk k es s \<le> 1" by (rule live_tp1_count_le)
next
  assume "bt_tp1_fires snap p \<and> bt_manage cfg i snap bal p = (bal', Some p')"
  then show "tp1 p' = None" by (auto dest: bt_manage_tp1_None)
next
  assume "tp1 p = None \<and> bt_manage cfg i snap bal p = (bal', Some p')"
  then show "tp1 p' = None" by (auto dest: bt_manage_tp1_None)
next
  assume "live_tp1_fires k e q \<and> map_of (positions s) k = Some q
        \<and> map_of (positions (live_event cfg rm brk e s)) k = Some q'"
  then show "tp1 q' = None" by (auto dest: event_tp1_None)
next
  assume "tp1 q = None \<and> map_of (positions s) k = Some q
        \<and> map_of (positions (live_event cfg rm brk e s)) k = Some q'"
  then show "tp1 q' = None" by (auto dest: event_tp1_None)
next
  assume "tp1 p = None"
  then show "bt_tp1_stage cfg bal p price atr = (bal, p)" by simp
next
  assume "tp1 p = None"
  then show "live_tp1_stage cfg brk s k p price atr = (s, p)"
    by (simp add: live_tp1_stage_def)
qed

text \<open>
  The example position over the prices 120, 115, 125: the first target is taken at
  120, and the return above the original level at 125 does not take it again.
\<close>

theorem tp1_fires_at_most_once_witness:
  "bt_tp1_fires (bar 120) example_long
   \<and> bt_manage shipped_config 10 (bar 120) 5000 example_long
       = (5000 + 20 - 88 / 1000, Some halved_long)
   \<and> tp1 halved_long = None
   \<and> bt_tp1_count shipped_config 10 [bar 120, bar 115, bar 125] 5000 example_long \<le> 1
   \<and> live_tp1_fires ''BTCUSDT'' (Candle (candle 10 120 2 None (Some 1000))) example_long
   \<and> live_tp1_count shipped_config default_risk (Some (\<lambda>n. True)) ''BTCUSDT''
       [Candle (candle 10 120 2 None (Some 1000)), Candle (candle 11 115 2 None (Some 1000)),
        Candle (candle 12 125 2 None (Some 1000))] example_runner \<le> 1
   \<and> bt_tp1_stage shipped_config 5000 halved_long 125 2 = (5000, halved_long)"
proof -
  note t = tp1_fires_at_most_once[where cfg = shipped_config and i = 10
      and snaps = "[bar 120, bar 115, bar 125]" and snap = "bar 120"
      and bal = 5000 and p = example_long and bal' = "5000 + 20 - 88 / 1000"
      and p' = halved_long and k = "''BTCUSDT''"
      and es = "[Candle (candle 10 120 2 None (Some 1000)),
                 Candle (candle 11 115 2 None (Some 1000)),
                 Candle (candle 12 125 2 None (Some 1000))]"
      and e = "Candle (candle 10 120 2 None (Some 1000))" and q = example_long
      and s = example_runner and rm = default_risk and brk = "Some (\<lambda>n. True)"
      and q' = halved_long and price = 125 and atr = 2]
  note u = tp1_fires_at_most_once[where cfg = shipped_config and i = 11
      and snaps = "[]" and snap = "bar 125"
      and bal = 5000 and p = halved_long and bal' = 5000
      and p' = halved_long and k = "''BTCUSDT''" and es = "[]"
      and e = "Candle (candle 10 120 2 None (Some 1000))" and q = example_long
      and s = example_runner and rm = default_risk and brk = "Some (\<lambda>n. True)"
      and q' = halved_long and price = 125 and atr = 2]
  have f: "bt_tp1_fires (bar 120) example_long
      \<and> bt_manage shipped_config 10 (bar 120) 5000 example_long
          = (5000 + 20 - 88 / 1000, Some halved_long)"
    using bt_tp1_example by blast
  with t have n: "tp1 halved_long = None" by blast
  with u have st: "bt_tp1_stage shipped_config 5000 halved_long 125 2 = (5000, halved_long)"
    by blast
  from t have c:
    "bt_tp1_count shipped_config 10 [bar 120, bar 115, bar 125] 5000 example_long \<le> 1"
    "live_tp1_count shipped_config default_risk (Some (\<lambda>n. True)) ''BTCUSDT''
       [Candle (candle 10 120 2 None (Some 1000)), Candle (candle 11 115 2 None (Some 1000)),
        Candle (candle 12 125 2 None (Some 1000))] example_runner \<le> 1"
    by blast+
  from f n st c live_tp1_example(1) show ?thesis by blast
qed

text \<open>
  Claim C6. Across one bar of the backtest, and across one event of the live
  driver, a position that stays open keeps a stored trailing stop, and the stored
  value does not decrease for a long and does not increase for any other side.
\<close>

theorem trailing_stop_ratchet:
  "(bt_manage cfg i snap bal p = (bal', Some p') \<and> trailing_stop p = Some v \<longrightarrow>
      (\<exists>v'. trailing_stop p' = Some v' \<and> (if side p = ''long'' then v \<le> v' else v' \<le> v)))
   \<and> (map_of (positions s) k = Some q
       \<and> map_of (positions (live_event cfg rm brk e s)) k = Some q'
       \<and> trailing_stop q = Some w \<longrightarrow>
      (\<exists>w'. trailing_stop q' = Some w' \<and> (if side q = ''long'' then w \<le> w' else w' \<le> w)))"
proof (intro conjI impI)
  assume "bt_manage cfg i snap bal p = (bal', Some p') \<and> trailing_stop p = Some v"
  with bt_manage_ts_le[of cfg i snap bal p bal' p']
  show "\<exists>v'. trailing_stop p' = Some v' \<and> (if side p = ''long'' then v \<le> v' else v' \<le> v)"
    by (simp add: ts_le_def)
next
  assume "map_of (positions s) k = Some q
       \<and> map_of (positions (live_event cfg rm brk e s)) k = Some q'
       \<and> trailing_stop q = Some w"
  with event_ts_le[of s k q cfg rm brk e q']
  show "\<exists>w'. trailing_stop q' = Some w' \<and> (if side q = ''long'' then w \<le> w' else w' \<le> w)"
    by (simp add: ts_le_def)
qed

text \<open>
  A long with the trailing stop at 110 meets a close of 125 with ATR 2: the stop is
  raised to 115 in both drivers.
\<close>

theorem trailing_stop_ratchet_witness:
  "bt_manage shipped_config 10 (bar 125) 5000 trailing_long
     = (5000, Some (trailing_long\<lparr>trailing_stop := Some 115\<rparr>))
   \<and> map_of (positions (live_event shipped_config default_risk (Some (\<lambda>n. True))
       (Candle (candle 10 125 2 None (Some 1000)))
       (example_runner\<lparr>positions := [(''BTCUSDT'', trailing_long)]\<rparr>))) ''BTCUSDT''
     = Some (trailing_long\<lparr>trailing_stop := Some 115\<rparr>)
   \<and> trailing_stop trailing_long = Some 110
   \<and> side trailing_long = ''long''
   \<and> (\<exists>v'. trailing_stop (trailing_long\<lparr>trailing_stop := Some 115\<rparr>) = Some v' \<and> 110 \<le> v')"
proof -
  have ts: "trailing_stop trailing_long = Some 110" and sd: "side trailing_long = ''long''"
    by (simp_all add: trailing_long_def example_long_def)
  have pre: "map_of (positions (example_runner\<lparr>positions := [(''BTCUSDT'', trailing_long)]\<rparr>))
      ''BTCUSDT'' = Some trailing_long"
    by simp
  from trailing_stop_ratchet[where cfg = shipped_config and i = 10 and snap = "bar 125"
      and bal = 5000 and p = trailing_long and bal' = 5000
      and p' = "trailing_long\<lparr>trailing_stop := Some 115\<rparr>" and v = 110
      and s = "example_runner\<lparr>positions := [(''BTCUSDT'', trailing_long)]\<rparr>"
      and k = "''BTCUSDT''" and q = trailing_long and rm = default_risk
      and brk = "Some (\<lambda>n. True)" and e = "Candle (candle 10 125 2 None (Some 1000))"
      and q' = "trailing_long\<lparr>trailing_stop := Some 115\<rparr>" and w = 110]
    bt_ratchet_example ts sd
  have "\<exists>v'. trailing_stop (trailing_long\<lparr>trailing_stop := Some 115\<rparr>) = Some v' \<and> 110 \<le> v'"
    by simp
  with bt_ratchet_example live_ratchet_example ts sd show ?thesis by blast
qed

text \<open>
  Claim C7, as the code has it. When a positive hard drawdown limit is configured
  and a candle reaches the guard with a positive equity reading, a positive stored
  peak and a drawdown \<open>(peak - equity) / peak * 100\<close> at or above the limit, the
  trading-disabled flag is set. Once set it stays set over every later run of
  candles and heartbeats, and over such a run no symbol is added to the ledger.
  Exit management does not read the flag: for a held symbol the ledger after a
  candle (positions, persisted positions, realized PnL, orders) is the same with
  the flag set as without.
\<close>

theorem drawdown_guard_sticky:
  "(0 < HARD_MAX_DRAWDOWN_PCT cfg \<and> 0 < t_price tk \<and> 0 < t_atr tk
      \<and> t_balance tk = Some eq \<and> 0 < eq \<and> equity_peak s = Some pk \<and> 0 < pk
      \<and> HARD_MAX_DRAWDOWN_PCT cfg \<le> (pk - eq) / pk * 100
    \<longrightarrow> trading_disabled (run_strategy_if_ready cfg rm (Some fills) tk s))
   \<and> (trading_disabled s \<longrightarrow>
        trading_disabled (live_run cfg rm brk es s)
        \<and> dom (map_of (positions (live_run cfg rm brk es s))) \<subseteq> dom (map_of (positions s)))
   \<and> (map_of (positions s) (t_symbol tk) = Some p \<longrightarrow>
        ledger_view (run_strategy_if_ready cfg rm brk tk (s\<lparr>trading_disabled := True\<rparr>))
          = ledger_view (run_strategy_if_ready cfg rm brk tk s))"
proof (intro conjI impI)
  assume "0 < HARD_MAX_DRAWDOWN_PCT cfg \<and> 0 < t_price tk \<and> 0 < t_atr tk
      \<and> t_balance tk = Some eq \<and> 0 < eq \<and> equity_peak s = Some pk \<and> 0 < pk
      \<and> HARD_MAX_DRAWDOWN_PCT cfg \<le> (pk - eq) / pk * 100"
  then show "trading_disabled (run_strategy_if_ready cfg rm (Some fills) tk s)"
    by (intro tick_trips[where eq = eq and pk = pk]) simp_all
next
  assume "trading_disabled s"
  then show "trading_disabled (live_run cfg rm brk es s)" by (rule run_sticky)
next
  assume "trading_disabled s"
  then show "dom (map_of (positions (live_run cfg rm brk es s))) \<subseteq> dom (map_of (positions s))"
    by (rule run_dom_disabled)
next
  assume "map_of (positions s) (t_symbol tk) = Some p"
  then show "ledger_view (run_strategy_if_ready cfg rm brk tk (s\<lparr>trading_disabled := True\<rparr>))
          = ledger_view (run_strategy_if_ready cfg rm brk tk s)"
    by (rule exits_ignore_flag)
qed

text \<open>
  The scenario of the specification: peak 1000, limit 10 percent, equity 895. The
  flag is set; it stays set after a buy signal on a flat symbol and a candle with
  the equity back at 1000; the flat symbol is not entered.
\<close>

theorem drawdown_guard_sticky_witness:
  "trading_disabled (run_strategy_if_ready guarded_config default_risk (Some (\<lambda>n. True))
      (candle 10 105 2 None (Some 895)) example_runner)
   \<and> trading_disabled (live_run guarded_config default_risk (Some (\<lambda>n. True))
        [Candle eth_tick, Candle (candle 12 105 2 None (Some 1000))] tripped_runner)
   \<and> dom (map_of (positions (live_run guarded_config default_risk (Some (\<lambda>n. True))
        [Candle eth_tick, Candle (candle 12 105 2 None (Some 1000))] tripped_runner)))
      \<subseteq> dom (map_of (positions tripped_runner))
   \<and> ledger_view (run_strategy_if_ready guarded_config default_risk (Some (\<lambda>n. True))
        (candle 12 89 2 None (Some 950)) (example_runner\<lparr>trading_disabled := True\<rparr>))
     = ledger_view (run_strategy_if_ready guarded_config default_risk (Some (\<lambda>n. True))
        (candle 12 89 2 None (Some 950)) example_runner)"
proof -
  have h1: "0 < HARD_MAX_DRAWDOWN_PCT guarded_config
      \<and> 0 < t_price (candle 10 105 2 None (Some 895))
      \<and> 0 < t_atr (candle 10 105 2 None (Some 895))
      \<and> t_balance (candle 10 105 2 None (Some 895)) = Some 895 \<and> (0::real) < 895
      \<and> equity_peak example_runner = Some 1000 \<and> (0::real) < 1000
      \<and> HARD_MAX_DRAWDOWN_PCT guarded_config \<le> (1000 - 895) / 1000 * 100"
    by (simp add: guarded_config_def shipped_config_def candle_def example_runner_def)
  from drawdown_guard_sticky[where cfg = guarded_config
      and tk = "candle 10 105 2 None (Some 895)" and eq = 895 and s = example_runner
      and pk = 1000 and rm = default_risk and fills = "\<lambda>n. True"
      and brk = "Some (\<lambda>n. True)" and es = "[]" and p = example_long] h1
  have a: "trading_disabled (run_strategy_if_ready guarded_config default_risk
      (Some (\<lambda>n. True)) (candle 10 105 2 None (Some 895)) example_runner)"
    by blast
  have h2: "trading_disabled tripped_runner"
    by (simp add: tripped_runner_def)
  from drawdown_guard_sticky[where cfg = guarded_config
      and tk = "candle 10 105 2 None (Some 895)" and eq = 895 and s = tripped_runner
      and pk = 1000 and rm = default_risk and fills = "\<lambda>n. True"
      and brk = "Some (\<lambda>n. True)"
      and es = "[Candle eth_tick, Candle (candle 12 105 2 None (Some 1000))]"
      and p = example_long] h2
  have b: "trading_disabled (live_run guarded_config default_risk (Some (\<lambda>n. True))
        [Candle eth_tick, Candle (candle 12 105 2 None (Some 1000))] tripped_runner)
     \<and> dom (map_of (positions (live_run guarded_config default_risk (Some (\<lambda>n. True))
        [Candle eth_tick, Candle (candle 12 105 2 None (Some 1000))] tripped_runner)))
      \<subseteq> dom (map_of (positions tripped_runner))"
    by blast
  have h3: "map_of (positions example_runner) (t_symbol (candle 12 89 2 None (Some 950)))
      = Some example_long"
    by (simp add: example_runner_def candle_def)
  from drawdown_guard_sticky[where cfg = guarded_config
      and tk = "candle 12 89 2 None (Some 950)" and eq = 950 and s = example_runner
      and pk = 1000 and rm = default_risk and fills = "\<lambda>n. True"
      and brk = "Some (\<lambda>n. True)" and es = "[]" and p = example_long] h3
  have c: "ledger_view (run_strategy_if_ready guarded_config default_risk (Some (\<lambda>n. True))
        (candle 12 89 2 None (Some 950)) (example_runner\<lparr>trading_disabled := True\<rparr>))
     = ledger_view (run_strategy_if_ready guarded_config default_risk (Some (\<lambda>n. True))
        (candle 12 89 2 None (Some 950)) example_runner)"
    by blast
  from a b c show ?thesis by blast
qed

text \<open>
  Claim C7 as stated fails when the equity reading is not positive: with the limit
  at 10 percent, the peak at 1000 and an equity reading of 0 the drawdown is 100
  percent, yet the guard computes no drawdown and the flag stays unset.
\<close>

theorem drawdown_guard_skips_zero_equity:
  "0 < HARD_MAX_DRAWDOWN_PCT guarded_config
   \<and> equity_peak example_runner = Some 1000
   \<and> HARD_MAX_DRAWDOWN_PCT guarded_config \<le> (1000 - 0) / 1000 * 100
   \<and> \<not> trading_disabled (run_strategy_if_ready guarded_config default_risk
          (Some (\<lambda>n. True)) (candle 10 105 2 None (Some 0)) example_runner)"
  by (simp add: live_eval guarded_config_def shipped_config_def example_runner_def
      example_long_def candle_def)

text \<open>
  Claim C8, evaluated on the code. The configured strategy name is
  \<^verbatim>\<open>htf_breakout\<close>, not the multi-timeframe one, and the limit is 96 bars. The
  example position, opened at index 0, meets a candle at index 96 closing at 105:
  no stop, target or reversal applies, and the live runner closes the position with
  the reason \<^verbatim>\<open>time_stop\<close>.
\<close>

theorem live_time_stop_ignores_strategy:
  "\<not> is_mtf_strategy htf_config
   \<and> run_strategy_if_ready htf_config default_risk (Some (\<lambda>n. True))
       (candle 96 105 2 None (Some 1000)) example_runner
     = example_runner
        \<lparr>positions := [], state_positions := [], realized_pnl := 10,
         alerts := [ClosedPosition ''BTCUSDT'' ''long'' 2 100 105 10 ''time_stop''],
         order_log := [\<lparr>o_symbol = ''BTCUSDT'', o_side = ''SELL'', o_qty = 2,
                         o_reduce_only = True\<rparr>]\<rparr>"
  by (simp add: live_eval htf_config_def shipped_config_def example_runner_def
      example_long_def candle_def is_mtf_strategy_def py_lower_def)

section \<open>The signal rule\<close>

subsection \<open>The rule as one decision after its filters\<close>

lemma htf_regime_simps:
  "(htf_regime a b c = ''bull'') = (a > b \<and> b > c)"
  "(htf_regime a b c = ''bear'') = (a < b \<and> b < c)"
  "(htf_regime a b c = ''none'') = (\<not> (a > b \<and> b > c) \<and> \<not> (a < b \<and> b < c))"
  by (auto simp: htf_regime_def)

lemma signal_core_char:
  "signal_core scfg df close ema20_h ema50_h ema200_h atr_h adx_h =
     (if core_filters scfg df close ema20_h ema50_h ema200_h atr_h adx_h
      then (if core_buy scfg df close ema20_h ema50_h ema200_h atr_h then Some ''buy''
            else if core_sell scfg df close ema20_h ema50_h ema200_h atr_h then Some ''sell''
            else None)
      else None)"
  unfolding signal_core_def core_filters_def core_buy_def core_sell_def long_trigger_def
    short_trigger_def breakout_window_def Let_def htf_regime_simps
  by (simp add: not_less not_le)

lemma signal_short_frame: "length df < 100 \<Longrightarrow> signal scfg df = None"
  by (simp add: signal_def)

lemma last_inputs_long: "100 \<le> length df \<Longrightarrow> last_inputs df = htf_inputs (last df)"
  by (auto simp: last_inputs_def)

subsection \<open>Evaluation on the concrete frames\<close>

lemma present_replicate [simp]: "present (replicate n (Some x)) = replicate n x"
  by (induction n) simp_all

lemma nan_replicate:
  assumes "0 < n"
  shows "nan_max (replicate n (Some x)) = Some x"
    and "nan_min (replicate n (Some x)) = Some x"
    and "nan_mean (replicate n (Some x)) = Some x"
  using assms by (simp_all add: nan_max_def nan_min_def nan_mean_def sum_list_replicate)

lemma shipped_fields:
  "ANTI_CHOP_MIN_ATR_PCT shipped_strategy_config = 5 / 10000"
  "BREAKOUT_ADX_MIN shipped_strategy_config = 20"
  "HTF_VOLATILE_ATR_PCT shipped_strategy_config = 4 / 1000"
  "HTF_VOLATILE_DRIFT_PCT shipped_strategy_config = 6 / 1000"
  "HTF_VOLATILE_ADX_MAX shipped_strategy_config = 22"
  "HTF_DRIFT_LOOKBACK_BARS shipped_strategy_config = 16"
  "MTF_ATR_SUPER_HIGH_PCT shipped_strategy_config = 2 / 100"
  "MTF_DISABLE_VOLATILE_FLAT shipped_strategy_config = True"
  "MTF_DRIFT_LOOKBACK_BARS shipped_strategy_config = 96"
  "MTF_DRIFT_MIN_PCT shipped_strategy_config = 6 / 1000"
  "MTF_DRIFT_STRONG_TREND_PCT shipped_strategy_config = 1 / 100"
  "MTF_DRIFT_ADAPTIVE_ENABLED shipped_strategy_config = True"
  "MTF_DRIFT_MIN_LOOSEN_FACTOR shipped_strategy_config = 7 / 10"
  "MTF_STRONG_TREND_ADX_MARGIN shipped_strategy_config = 5"
  "MTF_LTF_LOOKBACK shipped_strategy_config = 60"
  "MTF_ATR_LOW_VOL_PCT shipped_strategy_config = 3 / 1000"
  "MTF_ATR_HIGH_VOL_PCT shipped_strategy_config = 15 / 1000"
  "MTF_LOOKBACK_MIN shipped_strategy_config = 40"
  "MTF_LOOKBACK_MAX shipped_strategy_config = 80"
  "BREAKOUT_BUFFER_PCT shipped_strategy_config = 1 / 1000"
  "BREAKOUT_VOLUME_MULT shipped_strategy_config = 15 / 10"
  "LTF_ATR_MIN_PCT shipped_strategy_config = 2 / 10000"
  "LTF_MICRO_ATR_PCT shipped_strategy_config = 15 / 10000"
  "LTF_SLOPE_LOOKBACK shipped_strategy_config = 30"
  "LTF_SLOPE_MIN_ABS shipped_strategy_config = 1 / 1000"
  "LTF_VOLATILE_SLOPE_FACTOR shipped_strategy_config = 5"
  "MTF_RSI_LONG_MIN shipped_strategy_config = 50"
  "MTF_RSI_LONG_MAX shipped_strategy_config = 85"
  "MTF_RSI_SHORT_MIN shipped_strategy_config = 15"
  "MTF_RSI_SHORT_MAX shipped_strategy_config = 55"
  "MTF_RSI_LONG_TIGHTEN shipped_strategy_config = 5"
  "MTF_RSI_SHORT_TIGHTEN shipped_strategy_config = 5"
  by (simp_all add: shipped_strategy_config_def)

lemma quiet_fields:
  "r_high quiet_row = Some 101" "r_low quiet_row = Some 99" "r_volume quiet_row = Some 10"
  by (simp_all add: quiet_row_def)

lemma breakout_facts:
  "length breakout_frame = 100"
  "last breakout_frame = breakout_row"
  "breakout_frame \<noteq> []"
  "htf_inputs breakout_row = Some (102, 3, 2, 1, 3 / 10, 30)"
  "close_drift breakout_frame 96 = 1 / 51"
  "close_drift breakout_frame 16 = 1 / 51"
  "slope_abs breakout_frame 30 = Some (1 / 51)"
  "r_RSI breakout_row = Some 60"
  "r_ATR breakout_row = Some (1 / 10)"
  "r_volume breakout_row = Some 20"
  "py_slice breakout_frame (- 67) (- 1) = replicate 66 quiet_row"
  by (simp_all add: breakout_frame_def breakout_row_def quiet_row_def htf_inputs_def
      close_drift_def slope_abs_def py_iloc_def py_slice_def Let_def nth_append)

lemma breakdown_facts:
  "length breakdown_frame = 100"
  "last breakdown_frame = breakdown_row"
  "breakdown_frame \<noteq> []"
  "htf_inputs breakdown_row = Some (98, 1, 2, 3, 3 / 10, 30)"
  "close_drift breakdown_frame 96 = 1 / 49"
  "close_drift breakdown_frame 16 = 1 / 49"
  "slope_abs breakdown_frame 30 = Some (1 / 49)"
  "r_RSI breakdown_row = Some 40"
  "r_ATR breakdown_row = Some (1 / 10)"
  "r_volume breakdown_row = Some 20"
  "py_slice breakdown_frame (- 52) (- 1) = replicate 51 quiet_row"
  by (simp_all add: breakdown_frame_def breakdown_row_def quiet_row_def htf_inputs_def
      close_drift_def slope_abs_def py_iloc_def py_slice_def Let_def nth_append)

lemma quiet_facts:
  "length quiet_frame = 100"
  "last quiet_frame = quiet_row"
  "quiet_frame \<noteq> []"
  "htf_inputs quiet_row = Some (100, 3, 2, 1, 3 / 10, 30)"
  "close_drift quiet_frame 96 = 0"
  "r_RSI quiet_row = Some 50"
  "py_slice quiet_frame (- 61) (- 1) = replicate 60 quiet_row"
  by (simp_all add: quiet_frame_def quiet_row_def htf_inputs_def
      close_drift_def py_iloc_def py_slice_def Let_def nth_append)

lemma shipped_lookbacks:
  "lookback_ltf shipped_strategy_config (1 / 340) (1 / 51) = 66"
  "lookback_ltf shipped_strategy_config (3 / 980) (1 / 49) = 51"
  "lookback_ltf shipped_strategy_config (3 / 1000) 0 = 60"
  by (simp_all add: lookback_ltf_def shipped_fields py_trunc_def Let_def)

lemma shipped_windows:
  "breakout_window shipped_strategy_config breakout_frame 102 (3 / 10) = replicate 66 quiet_row"
  "breakout_window shipped_strategy_config breakdown_frame 98 (3 / 10) = replicate 51 quiet_row"
  "breakout_window shipped_strategy_config quiet_frame 100 (3 / 10) = replicate 60 quiet_row"
  by (simp_all add: breakout_window_def shipped_fields breakout_facts breakdown_facts
      quiet_facts shipped_lookbacks)

lemma shipped_triggers:
  "long_trigger shipped_strategy_config breakout_frame 102 (3 / 10) = Some (101101 / 1000)"
  "short_trigger shipped_strategy_config breakdown_frame 98 (3 / 10) = Some (98901 / 1000)"
  "long_trigger shipped_strategy_config quiet_frame 100 (3 / 10) = Some (101101 / 1000)"
  by (simp_all add: long_trigger_def short_trigger_def shipped_windows quiet_fields
      nan_replicate shipped_fields)

lemma breakout_frame_buy:
  "buy_conditions shipped_strategy_config breakout_frame"
  "earlier_filters_pass shipped_strategy_config breakout_frame"
  by (simp_all add: buy_conditions_def earlier_filters_pass_def last_inputs_def breakout_facts
      core_buy_def core_filters_def shipped_triggers shipped_windows shipped_lookbacks
      quiet_fields nan_replicate above_def in_band_def below_cell_def shipped_fields
      rsi_long_min_eff_def drift_min_eff_def)

lemma breakdown_frame_sell:
  "sell_conditions shipped_strategy_config breakdown_frame"
  "earlier_filters_pass shipped_strategy_config breakdown_frame"
  by (simp_all add: sell_conditions_def earlier_filters_pass_def last_inputs_def breakdown_facts
      core_sell_def core_filters_def shipped_triggers shipped_windows shipped_lookbacks
      quiet_fields nan_replicate below_def in_band_def below_cell_def shipped_fields
      rsi_short_max_eff_def drift_min_eff_def)

lemma quiet_frame_neither:
  "\<not> buy_conditions shipped_strategy_config quiet_frame"
  "\<not> sell_conditions shipped_strategy_config quiet_frame"
  by (simp_all add: buy_conditions_def sell_conditions_def last_inputs_def quiet_facts
      core_buy_def core_sell_def shipped_triggers above_def)

lemma weak_trend_facts:
  "length weak_trend_frame = 100"
  "last weak_trend_frame = weak_trend_row"
  "weak_trend_frame \<noteq> []"
  "htf_inputs weak_trend_row = Some (102, 3, 2, 1, 3 / 10, 10)"
  "close_drift weak_trend_frame 96 = 1 / 51"
  "r_RSI weak_trend_row = Some 60"
  "py_slice weak_trend_frame (- 67) (- 1) = replicate 66 quiet_row"
  by (simp_all add: weak_trend_frame_def weak_trend_row_def breakout_row_def quiet_row_def
      htf_inputs_def close_drift_def py_iloc_def py_slice_def Let_def nth_append)

lemma weak_trend_trigger:
  "long_trigger shipped_strategy_config weak_trend_frame 102 (3 / 10) = Some (101101 / 1000)"
  by (simp add: long_trigger_def breakout_window_def shipped_fields weak_trend_facts
      shipped_lookbacks quiet_fields nan_replicate)

lemma weak_trend_frame_filtered:
  "buy_conditions shipped_strategy_config weak_trend_frame"
  "\<not> earlier_filters_pass shipped_strategy_config weak_trend_frame"
  by (simp_all add: buy_conditions_def earlier_filters_pass_def last_inputs_def weak_trend_facts
      core_buy_def core_filters_def weak_trend_trigger above_def in_band_def shipped_fields
      rsi_long_min_eff_def)

section \<open>Claim about the signal rule\<close>

text \<open>
  Claim C9. For every frame and every setting of the rule: \<^verbatim>\<open>signal\<close> returns
  \<^verbatim>\<open>'buy'\<close> only if the high-timeframe EMAs are strictly ordered 20 over 50 over
  200, the close is strictly above the long trigger and the low-timeframe RSI is
  inside the long band; it returns \<^verbatim>\<open>'sell'\<close> only if the EMAs are strictly
  ordered the other way, the close is strictly below the short trigger and the RSI
  is inside the short band; on a frame that passes every earlier filter each set of
  conditions is also sufficient; and otherwise, that is when neither set holds or
  when an earlier filter rejects the frame, the result is \<^verbatim>\<open>None\<close>.
\<close>

theorem signal_final_rule:
  "(signal scfg df = Some ''buy'' \<longrightarrow> buy_conditions scfg df)
   \<and> (signal scfg df = Some ''sell'' \<longrightarrow> sell_conditions scfg df)
   \<and> (earlier_filters_pass scfg df \<and> buy_conditions scfg df \<longrightarrow> signal scfg df = Some ''buy'')
   \<and> (earlier_filters_pass scfg df \<and> sell_conditions scfg df \<longrightarrow> signal scfg df = Some ''sell'')
   \<and> (\<not> buy_conditions scfg df \<and> \<not> sell_conditions scfg df \<longrightarrow> signal scfg df = None)
   \<and> (\<not> earlier_filters_pass scfg df \<longrightarrow> signal scfg df = None)"
proof (cases "length df < 100")
  case True
  then show ?thesis
    by (simp add: signal_short_frame earlier_filters_pass_def)
next
  case False
  then have len: "100 \<le> length df" by simp
  note li = last_inputs_long[OF len]
  show ?thesis
  proof (cases "htf_inputs (last df)")
    case None
    with False show ?thesis
      by (simp add: signal_def buy_conditions_def sell_conditions_def earlier_filters_pass_def li)
  next
    case (Some t)
    obtain close e20 e50 e200 atr_h adx_h where t: "t = (close, e20, e50, e200, atr_h, adx_h)"
      by (cases t) auto
    have excl: "\<not> (core_buy scfg df close e20 e50 e200 atr_h
                    \<and> core_sell scfg df close e20 e50 e200 atr_h)"
      by (auto simp: core_buy_def core_sell_def)
    show ?thesis
      using excl False
      by (auto simp: signal_def buy_conditions_def sell_conditions_def earlier_filters_pass_def
          li Some t signal_core_char split: if_splits)
  qed
qed

text \<open>
  Under the shipped settings the rule buys on the breakout frame, sells on the
  breakdown frame and returns \<^verbatim>\<open>None\<close> on the quiet frame; on the breakout frame
  with a weak trend the three conditions of a buy hold, the ADX filter rejects the
  frame and the rule returns \<^verbatim>\<open>None\<close>.
\<close>

theorem signal_final_rule_witness:
  "earlier_filters_pass shipped_strategy_config breakout_frame
   \<and> buy_conditions shipped_strategy_config breakout_frame
   \<and> signal shipped_strategy_config breakout_frame = Some ''buy''
   \<and> earlier_filters_pass shipped_strategy_config breakdown_frame
   \<and> sell_conditions shipped_strategy_config breakdown_frame
   \<and> signal shipped_strategy_config breakdown_frame = Some ''sell''
   \<and> \<not> buy_conditions shipped_strategy_config quiet_frame
   \<and> \<not> sell_conditions shipped_strategy_config quiet_frame
   \<and> signal shipped_strategy_config quiet_frame = None
   \<and> buy_conditions shipped_strategy_config weak_trend_frame
   \<and> \<not> earlier_filters_pass shipped_strategy_config weak_trend_frame
   \<and> signal shipped_strategy_config weak_trend_frame = None"
  using signal_final_rule[where scfg = shipped_strategy_config and df = breakout_frame]
    signal_final_rule[where scfg = shipped_strategy_config and df = breakdown_frame]
    signal_final_rule[where scfg = shipped_strategy_config and df = quiet_frame]
    signal_final_rule[where scfg = shipped_strategy_config and df = weak_trend_frame]
    breakout_frame_buy breakdown_frame_sell quiet_frame_neither weak_trend_frame_filtered
  by blast

end
